theory Spec2Isabelle
  imports Complex_Main "HOL-Library.Char_ord" "HOL-Library.List_Lexorder" "HOL-Library.Option_ord"
begin

section \<open>Python values and strings\<close>

text \<open>
  The recommender is Python over pandas records. A record cell is a dynamically typed
  value; the exceptions the source can raise are values of \<open>py_error\<close>, and a function
  that can raise returns \<open>py_error + 'a\<close>. Python floats are modelled as \<open>real\<close>
  numbers (no rounding), \<open>NaN\<close> as the separate value \<open>PNaN\<close>. A text is the list of its
  code points, and a \<open>char\<close> is a code point below 256: text with a character beyond
  that range lies outside the model.
\<close>

datatype py_error = ValueError | AttributeError | KeyError | IndexError | TypeError

datatype pyval = PNone | PNaN | PInt int | PFloat real | PStr string

type_synonym pydict = "string \<Rightarrow> pyval option"

text \<open>\<open>d.get(k)\<close> and \<open>d.get(k, default)\<close>.\<close>

definition dget :: "pydict \<Rightarrow> string \<Rightarrow> pyval" where
  "dget d k = (case d k of None \<Rightarrow> PNone | Some v \<Rightarrow> v)"

definition dget_default :: "pydict \<Rightarrow> string \<Rightarrow> pyval \<Rightarrow> pyval" where
  "dget_default d k dflt = (case d k of None \<Rightarrow> dflt | Some v \<Rightarrow> v)"

text \<open>Truth value of an object: \<open>bool(nan)\<close> is \<open>True\<close>.\<close>

fun truthy :: "pyval \<Rightarrow> bool" where
  "truthy PNone = False"
| "truthy PNaN = True"
| "truthy (PInt n) = (n \<noteq> 0)"
| "truthy (PFloat r) = (r \<noteq> 0)"
| "truthy (PStr s) = (s \<noteq> [])"

definition py_or :: "pyval \<Rightarrow> pyval \<Rightarrow> pyval" where
  "py_or a b = (if truthy a then a else b)"

fun isinstance_str :: "pyval \<Rightarrow> bool" where
  "isinstance_str (PStr s) = True"
| "isinstance_str v = False"

text \<open>\<open>str.strip()\<close>, \<open>str.lower()\<close>, \<open>str.split(',')\<close>, \<open>tok in v\<close>, \<open>str.startswith\<close>.
  Below 256 the white space of \<open>str.isspace\<close> is the ASCII one (with the separators
  \<open>0x1C\<close> to \<open>0x1F\<close>), the next-line character \<open>0x85\<close> and the no-break space \<open>0xA0\<close>;
  the letters that \<open>lower\<close> changes are \<open>A\<close> to \<open>Z\<close> and \<open>0xC0\<close> to \<open>0xDE\<close> without the
  multiplication sign \<open>0xD7\<close>; the only decimal digits are \<open>0\<close> to \<open>9\<close>.\<close>

definition is_space :: "char \<Rightarrow> bool" where
  "is_space c = (c \<in> {CHR 0x20, CHR 0x09, CHR 0x0A, CHR 0x0B, CHR 0x0C, CHR 0x0D,
                        CHR 0x1C, CHR 0x1D, CHR 0x1E, CHR 0x1F, CHR 0x85, CHR 0xA0})"

definition py_strip :: "string \<Rightarrow> string" where
  "py_strip s = rev (dropWhile is_space (rev (dropWhile is_space s)))"

definition lower_char :: "char \<Rightarrow> char" where
  "lower_char c =
     (if (CHR ''A'' \<le> c \<and> c \<le> CHR ''Z'') \<or> (CHR 0xC0 \<le> c \<and> c \<le> CHR 0xDE \<and> c \<noteq> CHR 0xD7)
      then char_of (of_char c + (32::nat)) else c)"

definition py_lower :: "string \<Rightarrow> string" where
  "py_lower s = map lower_char s"

fun split_on :: "char \<Rightarrow> string \<Rightarrow> string list" where
  "split_on sep [] = [[]]"
| "split_on sep (c # cs) =
     (if c = sep then [] # split_on sep cs
      else (case split_on sep cs of [] \<Rightarrow> [[c]] | w # ws \<Rightarrow> (c # w) # ws))"

fun startswith :: "string \<Rightarrow> string \<Rightarrow> bool" where
  "startswith s [] = True"
| "startswith [] (p # ps) = False"
| "startswith (c # cs) (p # ps) = (c = p \<and> startswith cs ps)"

fun py_in :: "string \<Rightarrow> string \<Rightarrow> bool" where
  "py_in tok [] = (tok = [])"
| "py_in tok (c # cs) = (startswith (c # cs) tok \<or> py_in tok cs)"

text \<open>\<open>int(x)\<close>: a float is truncated towards zero, \<open>nan\<close> and text that is not an
  optionally signed run of digits (single underscores between digits allowed) raise
  \<open>ValueError\<close>, \<open>None\<close> raises \<open>TypeError\<close>.\<close>

definition is_digit :: "char \<Rightarrow> bool" where
  "is_digit c = (CHR ''0'' \<le> c \<and> c \<le> CHR ''9'')"

definition digit_val :: "char \<Rightarrow> nat" where
  "digit_val c = of_char c - 48"

fun digits_ok :: "string \<Rightarrow> bool" where
  "digits_ok [] = False"
| "digits_ok [c] = is_digit c"
| "digits_ok (c # d # cs) =
     (is_digit c \<and> (if d = CHR ''_'' then digits_ok cs else digits_ok (d # cs)))"

definition digits_val :: "string \<Rightarrow> nat" where
  "digits_val s = foldl (\<lambda>acc c. 10 * acc + digit_val c) 0 (filter is_digit s)"

definition int_of_str :: "string \<Rightarrow> py_error + int" where
  "int_of_str s =
     (case py_strip s of
        [] \<Rightarrow> Inl ValueError
      | c # cs \<Rightarrow>
          if c = CHR ''-'' then (if digits_ok cs then Inr (- int (digits_val cs)) else Inl ValueError)
          else if c = CHR ''+'' then (if digits_ok cs then Inr (int (digits_val cs)) else Inl ValueError)
          else if digits_ok (c # cs) then Inr (int (digits_val (c # cs)))
          else Inl ValueError)"

definition trunc :: "real \<Rightarrow> int" where
  "trunc r = (if 0 \<le> r then \<lfloor>r\<rfloor> else \<lceil>r\<rceil>)"

fun py_int :: "pyval \<Rightarrow> py_error + int" where
  "py_int PNone = Inl TypeError"
| "py_int PNaN = Inl ValueError"
| "py_int (PInt n) = Inr n"
| "py_int (PFloat r) = Inr (trunc r)"
| "py_int (PStr s) = int_of_str s"

text \<open>\<open>str(x)\<close>. The text of a finite float is Python's shortest round-trip
  representation; it is a parameter \<open>repr_float\<close> of the model.\<close>

fun digits_of :: "nat \<Rightarrow> nat \<Rightarrow> string" where
  "digits_of 0 n = []"
| "digits_of (Suc fuel) n =
     (if n < 10 then [char_of (48 + n)]
      else digits_of fuel (n div 10) @ [char_of (48 + n mod 10)])"

definition str_nat :: "nat \<Rightarrow> string" where
  "str_nat n = digits_of (Suc n) n"

definition str_int :: "int \<Rightarrow> string" where
  "str_int i = (if i < 0 then CHR ''-'' # str_nat (nat (- i)) else str_nat (nat i))"

fun py_str :: "(real \<Rightarrow> string) \<Rightarrow> pyval \<Rightarrow> string" where
  "py_str repr_float PNone = ''None''"
| "py_str repr_float PNaN = ''nan''"
| "py_str repr_float (PInt n) = str_int n"
| "py_str repr_float (PFloat r) = repr_float r"
| "py_str repr_float (PStr s) = s"

section \<open>Feature helpers (features.py)\<close>

text \<open>\<open>_normalize_text\<close>: \<open>(x or "").strip().lower()\<close>; a truthy value that is not text
  has no \<open>strip\<close> and raises \<open>AttributeError\<close>.\<close>

definition normalize_text :: "pyval \<Rightarrow> py_error + string" where
  "normalize_text x =
     (case py_or x (PStr []) of
        PStr s \<Rightarrow> Inr (py_lower (py_strip s))
      | _ \<Rightarrow> Inl AttributeError)"

definition comma_tokens :: "string \<Rightarrow> string list" where
  "comma_tokens s =
     map (\<lambda>t. py_lower (py_strip t)) (filter (\<lambda>t. py_strip t \<noteq> []) (split_on CHR '','' s))"

fun tag_set :: "pyval \<Rightarrow> string set" where
  "tag_set (PStr s) = set (comma_tokens s)"
| "tag_set v = {}"

definition energy_bucket :: "pyval \<Rightarrow> py_error + real" where
  "energy_bucket v =
     (case normalize_text v of
        Inl e \<Rightarrow> Inl e
      | Inr t \<Rightarrow>
          if t \<in> {''introvert'', ''low''} then Inr 0.0
          else if t \<in> {''extrovert'', ''high'', ''extravert''} then Inr 1.0
          else Inr 0.5)"

definition humor_is_dark :: "pyval \<Rightarrow> py_error + bool" where
  "humor_is_dark v =
     (case normalize_text v of
        Inl e \<Rightarrow> Inl e
      | Inr t \<Rightarrow> Inr (list_ex (\<lambda>tok. py_in tok t) [''dark'', ''edgy'', ''sarcastic'']))"

definition humor_is_wholesome :: "pyval \<Rightarrow> py_error + bool" where
  "humor_is_wholesome v =
     (case normalize_text v of
        Inl e \<Rightarrow> Inl e
      | Inr t \<Rightarrow> Inr (list_ex (\<lambda>tok. py_in tok t) [''wholesome'', ''clean'', ''light'']))"

definition risk_bucket :: "pyval \<Rightarrow> py_error + real" where
  "risk_bucket v =
     (case normalize_text v of
        Inl e \<Rightarrow> Inl e
      | Inr t \<Rightarrow>
          if t \<in> {''low'', ''cautious''} then Inr 0.0
          else if t \<in> {''high'', ''bold'', ''adventurous''} then Inr 1.0
          else Inr 0.5)"

definition parse_gender_interest :: "pyval \<Rightarrow> string list" where
  "parse_gender_interest v =
     (if \<not> truthy v \<or> \<not> isinstance_str v then []
      else (case v of PStr s \<Rightarrow> comma_tokens s | _ \<Rightarrow> []))"

definition INDIA_CITY_MAP :: "string \<Rightarrow> (real \<times> real \<times> real) option" where
  "INDIA_CITY_MAP =
     [''delhi'' \<mapsto> (28.6139, 77.2090, 5.5),
      ''new delhi'' \<mapsto> (28.6139, 77.2090, 5.5),
      ''mumbai'' \<mapsto> (19.0760, 72.8777, 5.5),
      ''bengaluru'' \<mapsto> (12.9716, 77.5946, 5.5),
      ''bangalore'' \<mapsto> (12.9716, 77.5946, 5.5),
      ''chennai'' \<mapsto> (13.0827, 80.2707, 5.5),
      ''kolkata'' \<mapsto> (22.5726, 88.3639, 5.5),
      ''hyderabad'' \<mapsto> (17.3850, 78.4867, 5.5)]"

definition delhi :: "real \<times> real \<times> real" where
  "delhi = (28.6139, 77.2090, 5.5)"

definition city_geocode :: "pyval \<Rightarrow> py_error + (real \<times> real \<times> real)" where
  "city_geocode name =
     (if \<not> truthy name then Inr delhi
      else (case normalize_text name of
              Inl e \<Rightarrow> Inl e
            | Inr key \<Rightarrow> Inr (case INDIA_CITY_MAP key of None \<Rightarrow> delhi | Some g \<Rightarrow> g)))"

text \<open>\<open>_int_or_none\<close>: every exception of \<open>int(x)\<close> is caught.\<close>

definition int_or_none :: "pyval \<Rightarrow> int option" where
  "int_or_none x =
     (if x = PNone \<or> x = PStr [] then None
      else (case py_int x of Inl e \<Rightarrow> None | Inr n \<Rightarrow> Some n))"

record filter_flags =
  gender_flag :: bool
  age_flag :: bool
  city_flag :: bool

text \<open>\<open>filters.get(name, False)\<close> as a condition.\<close>

definition filter_on :: "(string \<Rightarrow> bool option) \<Rightarrow> string \<Rightarrow> bool" where
  "filter_on filters name = (filters name = Some True)"

definition gender_check :: "pydict \<Rightarrow> pydict \<Rightarrow> (string \<Rightarrow> bool option) \<Rightarrow> py_error + bool" where
  "gender_check u c filters =
     (if filter_on filters ''gender'' then
        (let u_interest = parse_gender_interest (dget u ''gender_interest'') in
         if u_interest \<noteq> [] \<and> ''any'' \<notin> set u_interest then
           (case normalize_text (dget_default c ''gender'' (PStr [])) of
              Inl e \<Rightarrow> Inl e
            | Inr g \<Rightarrow> Inr (g \<in> set u_interest))
         else Inr True)
      else Inr True)"

definition age_check :: "pydict \<Rightarrow> pydict \<Rightarrow> (string \<Rightarrow> bool option) \<Rightarrow> bool" where
  "age_check u c filters =
     (if filter_on filters ''age'' then
        (let u_min = int_or_none (dget u ''min_age_pref'');
             u_max = int_or_none (dget u ''max_age_pref'');
             c_age = (case int_or_none (dget c ''age'') of None \<Rightarrow> 0 | Some a \<Rightarrow> a);
             age_ok1 = (case u_min of None \<Rightarrow> True | Some lo \<Rightarrow> \<not> c_age < lo)
         in (case u_max of None \<Rightarrow> age_ok1 | Some hi \<Rightarrow> if c_age > hi then False else age_ok1))
      else True)"

definition city_check :: "pydict \<Rightarrow> pydict \<Rightarrow> (string \<Rightarrow> bool option) \<Rightarrow> py_error + bool" where
  "city_check u c filters =
     (if filter_on filters ''city'' then
        (case normalize_text (dget_default u ''city_interest'' (PStr ''any'')) of
           Inl e \<Rightarrow> Inl e
         | Inr pref \<Rightarrow>
             if pref \<noteq> [] \<and> pref \<noteq> ''any'' then
               (case normalize_text (dget_default c ''city'' (PStr [])) of
                  Inl e \<Rightarrow> Inl e
                | Inr cc \<Rightarrow> Inr (cc = pref))
             else Inr True)
      else Inr True)"

definition hard_filter_flags ::
  "pydict \<Rightarrow> pydict \<Rightarrow> (string \<Rightarrow> bool option) \<Rightarrow> py_error + filter_flags" where
  "hard_filter_flags u c filters =
     (case gender_check u c filters of
        Inl e \<Rightarrow> Inl e
      | Inr gender_ok \<Rightarrow>
          (let age_ok = age_check u c filters in
           case city_check u c filters of
             Inl e \<Rightarrow> Inl e
           | Inr city_ok \<Rightarrow>
               Inr \<lparr>gender_flag = gender_ok, age_flag = age_ok, city_flag = city_ok\<rparr>))"

section \<open>Calendar scorer (vedic\_calendar.py)\<close>

record date =
  year :: nat
  month :: nat
  day :: nat

definition is_leap :: "nat \<Rightarrow> bool" where
  "is_leap y = (y mod 4 = 0 \<and> (y mod 100 \<noteq> 0 \<or> y mod 400 = 0))"

definition days_in_month :: "nat \<Rightarrow> nat \<Rightarrow> nat" where
  "days_in_month y m =
     (if m = 2 then (if is_leap y then 29 else 28)
      else if m \<in> {4, 6, 9, 11} then 30 else 31)"

text \<open>\<open>datetime.strptime(d, "%Y-%m-%d")\<close> matches the regular expression
  \<open>(\d\d\d\d)-(1[0-2]|0[1-9]|[1-9])-(3[01]|[12]\d|0[1-9]|[1-9]| [1-9])\<close> at the start of
  the text, takes the first match in the order of the alternatives, raises \<open>ValueError\<close>
  when there is none or when text remains after it, and raises \<open>ValueError\<close> when the
  fields are not a date of the calendar (year 0, 30 February). The digits that \<open>\d\<close>
  matches are the decimal digits of Unicode; below 256 these are \<open>0\<close> to \<open>9\<close>.\<close>

definition nonzero_digit :: "char \<Rightarrow> bool" where
  "nonzero_digit c = (CHR ''1'' \<le> c \<and> c \<le> CHR ''9'')"

definition month_alts :: "string \<Rightarrow> (nat \<times> string) list" where
  "month_alts s =
     (case s of
        a # b # r \<Rightarrow>
          (if a = CHR ''1'' \<and> b \<in> {CHR ''0'', CHR ''1'', CHR ''2''} then [(10 + digit_val b, r)] else []) @
          (if a = CHR ''0'' \<and> nonzero_digit b then [(digit_val b, r)] else []) @
          (if nonzero_digit a then [(digit_val a, b # r)] else [])
      | [a] \<Rightarrow> (if nonzero_digit a then [(digit_val a, [])] else [])
      | [] \<Rightarrow> [])"

definition day_alts :: "string \<Rightarrow> (nat \<times> string) list" where
  "day_alts s =
     (case s of
        a # b # r \<Rightarrow>
          (if a = CHR ''3'' \<and> b \<in> {CHR ''0'', CHR ''1''} then [(30 + digit_val b, r)] else []) @
          (if a \<in> {CHR ''1'', CHR ''2''} \<and> is_digit b then [(10 * digit_val a + digit_val b, r)] else []) @
          (if a = CHR ''0'' \<and> nonzero_digit b then [(digit_val b, r)] else []) @
          (if nonzero_digit a then [(digit_val a, b # r)] else []) @
          (if a = CHR 0x20 \<and> nonzero_digit b then [(digit_val b, r)] else [])
      | [a] \<Rightarrow> (if nonzero_digit a then [(digit_val a, [])] else [])
      | [] \<Rightarrow> [])"

definition month_day_matches :: "string \<Rightarrow> (nat \<times> nat \<times> string) list" where
  "month_day_matches s =
     concat (map (\<lambda>(m, r1).
        (case r1 of
           [] \<Rightarrow> []
         | c # r2 \<Rightarrow> if c = CHR ''-'' then map (\<lambda>(d, r3). (m, d, r3)) (day_alts r2) else []))
       (month_alts s))"

definition make_date :: "nat \<Rightarrow> nat \<Rightarrow> nat \<Rightarrow> py_error + date" where
  "make_date y m d =
     (if 1 \<le> y \<and> y \<le> 9999 \<and> 1 \<le> m \<and> m \<le> 12 \<and> 1 \<le> d \<and> d \<le> days_in_month y m
      then Inr \<lparr>year = y, month = m, day = d\<rparr>
      else Inl ValueError)"

definition parse_date :: "string \<Rightarrow> py_error + date" where
  "parse_date s =
     (case s of
        y1 # y2 # y3 # y4 # h # rest \<Rightarrow>
          if is_digit y1 \<and> is_digit y2 \<and> is_digit y3 \<and> is_digit y4 \<and> h = CHR ''-'' then
            (case month_day_matches rest of
               [] \<Rightarrow> Inl ValueError
             | (m, d, r3) # other \<Rightarrow>
                 if r3 \<noteq> [] then Inl ValueError
                 else make_date (1000 * digit_val y1 + 100 * digit_val y2 + 10 * digit_val y3
                                 + digit_val y4) m d)
          else Inl ValueError
      | _ \<Rightarrow> Inl ValueError)"

text \<open>\<open>dt.timetuple().tm_yday\<close>: the day of the year, from 1.\<close>

definition tm_yday :: "date \<Rightarrow> nat" where
  "tm_yday dt = (\<Sum>m \<leftarrow> [1..<month dt]. days_in_month (year dt) m) + day dt"

definition list_get :: "'a list \<Rightarrow> nat \<Rightarrow> py_error + 'a" where
  "list_get xs i = (if i < length xs then Inr (xs ! i) else Inl IndexError)"

definition TITHIS :: "string list" where
  "TITHIS = map (\<lambda>i. ''Tithi_'' @ str_nat i) [1..<31]"

definition PAKSHAS :: "string list" where
  "PAKSHAS = [''Shukla'', ''Krishna'']"

definition NAKSHATRAS :: "string list" where
  "NAKSHATRAS = map (\<lambda>i. ''Nakshatra_'' @ str_nat i) [1..<28]"

definition YOGAS :: "string list" where
  "YOGAS = map (\<lambda>i. ''Yoga_'' @ str_nat i) [1..<28]"

record hindu_date =
  tithi :: string
  paksha :: string
  nakshatra :: string
  yoga :: string
  confidence :: real

definition base_confidence :: "real \<Rightarrow> nat \<Rightarrow> real" where
  "base_confidence latitude doy =
     (let lat_factor = max 0.6 (1.0 - \<bar>latitude\<bar> / 180.0);
          equinox_band = 1.0 - (real_of_int \<bar>int (doy mod 182) - 91\<bar> / 91.0) * 0.2
      in max 0.0 (min 1.0 (0.6 * lat_factor * equinox_band + 0.2)))"

definition hindu_date_from_date :: "string \<Rightarrow> real \<Rightarrow> real \<Rightarrow> real \<Rightarrow> py_error + hindu_date" where
  "hindu_date_from_date d latitude longitude tz =
     (case parse_date d of
        Inl e \<Rightarrow> Inl e
      | Inr dt \<Rightarrow>
          (let doy = tm_yday dt in
           case list_get TITHIS ((doy * 3) mod 30) of Inl e \<Rightarrow> Inl e | Inr ti \<Rightarrow>
           case list_get PAKSHAS ((doy div 15) mod 2) of Inl e \<Rightarrow> Inl e | Inr pa \<Rightarrow>
           case list_get NAKSHATRAS (doy mod 27) of Inl e \<Rightarrow> Inl e | Inr na \<Rightarrow>
           case list_get YOGAS ((doy * 2) mod 27) of Inl e \<Rightarrow> Inl e | Inr yo \<Rightarrow>
             Inr \<lparr>tithi = ti, paksha = pa, nakshatra = na, yoga = yo,
                  confidence = base_confidence latitude doy\<rparr>))"

definition day_distance :: "nat \<Rightarrow> nat \<Rightarrow> int" where
  "day_distance dy_u dy_c = (let diff = \<bar>int dy_u - int dy_c\<bar> in min diff (365 - diff))"

definition kernel_score :: "int \<Rightarrow> real" where
  "kernel_score diff =
     (let same = 1.0 - (real_of_int diff / 91.25);
          opp = 1.0 - (\<bar>real_of_int diff - 182.5\<bar> / 91.25);
          score = max 0.0 (0.6 * max same 0.0 + 0.4 * max opp 0.0)
      in min 1.0 score)"

definition vedic_lite_weighted_score :: "string \<Rightarrow> string \<Rightarrow> real" where
  "vedic_lite_weighted_score dob_user dob_cand =
     (case parse_date dob_user of
        Inl e \<Rightarrow> 0.0
      | Inr du \<Rightarrow>
          (case parse_date dob_cand of
             Inl e \<Rightarrow> 0.0
           | Inr dc \<Rightarrow> kernel_score (day_distance (tm_yday du) (tm_yday dc))))"

section \<open>Feature assembly (features.py, build\_features)\<close>

record person_feats =
  p_tags :: "string set"
  p_age :: int
  p_energy :: real
  p_dark :: bool
  p_wholesome :: bool
  p_risk :: real

text \<open>The six per-person values, computed in the order of the source, for the user
  (before the loop over the candidates) and for each candidate that passed the filters.
  \<open>int(u.get("age", 0) or 0)\<close> is outside any \<open>try\<close>.\<close>

definition person_features :: "pydict \<Rightarrow> py_error + person_feats" where
  "person_features u =
     (let tags = tag_set (dget_default u ''tags'' (PStr [])) in
      case py_int (py_or (dget_default u ''age'' (PInt 0)) (PInt 0)) of Inl e \<Rightarrow> Inl e | Inr age \<Rightarrow>
      case energy_bucket (dget_default u ''social_energy'' (PStr [])) of Inl e \<Rightarrow> Inl e | Inr energy \<Rightarrow>
      case humor_is_dark (dget_default u ''humor_style'' (PStr [])) of Inl e \<Rightarrow> Inl e | Inr dark \<Rightarrow>
      case humor_is_wholesome (dget_default u ''humor_style'' (PStr [])) of Inl e \<Rightarrow> Inl e | Inr wholesome \<Rightarrow>
      case risk_bucket (dget_default u ''risk_taking'' (PStr [])) of Inl e \<Rightarrow> Inl e | Inr risk \<Rightarrow>
        Inr \<lparr>p_tags = tags, p_age = age, p_energy = energy, p_dark = dark,
             p_wholesome = wholesome, p_risk = risk\<rparr>)"

text \<open>\<open>_normalize_text(str(u.get(key, "")))\<close>.\<close>

definition text_field :: "(real \<Rightarrow> string) \<Rightarrow> pydict \<Rightarrow> string \<Rightarrow> py_error + string" where
  "text_field repr_float u key = normalize_text (PStr (py_str repr_float (dget_default u key (PStr []))))"

text \<open>The body of the \<open>try\<close> of the calendar block (lines 172 to 181).\<close>

definition boosted :: "real \<Rightarrow> string \<Rightarrow> real" where
  "boosted conf birth_time = (if birth_time \<noteq> [] then min 1.0 (conf + 0.15) else conf)"

definition pair_confidence ::
  "(real \<Rightarrow> string) \<Rightarrow> pydict \<Rightarrow> pydict \<Rightarrow> string \<Rightarrow> string \<Rightarrow>
   (real \<times> real \<times> real) \<Rightarrow> (real \<times> real \<times> real) \<Rightarrow> py_error + real" where
  "pair_confidence repr_float u c u_dob c_dob ug cg =
     (case ug of (u_lat, u_lon, u_tz) \<Rightarrow> case cg of (c_lat, c_lon, c_tz) \<Rightarrow>
      case hindu_date_from_date u_dob u_lat u_lon u_tz of Inl e \<Rightarrow> Inl e | Inr u_cal \<Rightarrow>
      case hindu_date_from_date c_dob c_lat c_lon c_tz of Inl e \<Rightarrow> Inl e | Inr c_cal \<Rightarrow>
      case text_field repr_float u ''birth_time'' of Inl e \<Rightarrow> Inl e | Inr u_time \<Rightarrow>
      case text_field repr_float c ''birth_time'' of Inl e \<Rightarrow> Inl e | Inr c_time \<Rightarrow>
        (let u_conf = boosted (confidence u_cal) u_time;
             c_conf = boosted (confidence c_cal) c_time
         in Inr (max 0.0 (min 1.0 (min u_conf c_conf)))))"

text \<open>The calendar block (lines 161 to 184): the pair \<open>(vedic_lite_score, vedic_confidence)\<close>.
  The two \<open>_city_geocode\<close> calls stand before the \<open>try\<close>.\<close>

definition calendar_signal :: "(real \<Rightarrow> string) \<Rightarrow> pydict \<Rightarrow> pydict \<Rightarrow> py_error + (real \<times> real)" where
  "calendar_signal repr_float u c =
     (case text_field repr_float u ''birth_date'' of Inl e \<Rightarrow> Inl e | Inr u_dob \<Rightarrow>
      case text_field repr_float c ''birth_date'' of Inl e \<Rightarrow> Inl e | Inr c_dob \<Rightarrow>
        if u_dob \<noteq> [] \<and> c_dob \<noteq> [] \<and> length u_dob = 10 \<and> length c_dob = 10 then
          (let score = vedic_lite_weighted_score u_dob c_dob in
           case city_geocode (dget u ''birth_city'') of Inl e \<Rightarrow> Inl e | Inr ug \<Rightarrow>
           case city_geocode (dget c ''birth_city'') of Inl e \<Rightarrow> Inl e | Inr cg \<Rightarrow>
             (case pair_confidence repr_float u c u_dob c_dob ug cg of
                Inl e \<Rightarrow> Inr (0.0, 0.0)
              | Inr conf \<Rightarrow> Inr (score, conf)))
        else Inr (0.0, 0.0))"

record feature_row =
  user_id :: int
  match_id :: int
  base_sim :: real
  tag_overlap :: nat
  age_gap :: int
  energy_comp :: int
  humor_comp :: int
  risk_comp :: int
  comp_index :: real
  filter_gender :: bool
  filter_age :: bool
  filter_city :: bool
  vedic_lite_score :: real
  vedic_confidence :: real

definition opposite :: "real \<Rightarrow> real \<Rightarrow> int" where
  "opposite a b = (if (a \<le> 0.25 \<and> b \<ge> 0.75) \<or> (a \<ge> 0.75 \<and> b \<le> 0.25) then 1 else 0)"

definition mix_get :: "(string \<Rightarrow> real option) \<Rightarrow> string \<Rightarrow> real \<Rightarrow> real" where
  "mix_get comp_mix key dflt = (case comp_mix key of None \<Rightarrow> dflt | Some w \<Rightarrow> w)"

text \<open>Lines 141 to 201: the row of a pair that passed the filters.\<close>

definition make_row ::
  "(real \<Rightarrow> string) \<Rightarrow> (string \<Rightarrow> real option) \<Rightarrow> int \<Rightarrow> pydict \<Rightarrow> person_feats \<Rightarrow>
   int \<Rightarrow> real \<Rightarrow> pydict \<Rightarrow> filter_flags \<Rightarrow> py_error + feature_row" where
  "make_row repr_float comp_mix uid u uf cid sim c fflags =
     (case person_features c of Inl e \<Rightarrow> Inl e | Inr cf \<Rightarrow>
        (let overlap = card (p_tags uf \<inter> p_tags cf);
             gap = \<bar>p_age uf - p_age cf\<bar>;
             energy = opposite (p_energy uf) (p_energy cf);
             humor = (if (p_dark uf \<and> p_wholesome cf) \<or> (p_wholesome uf \<and> p_dark cf) then 1 else 0);
             risk = opposite (p_risk uf) (p_risk cf);
             idx = mix_get comp_mix ''energy'' 0.34 * real_of_int energy
                 + mix_get comp_mix ''humor'' 0.33 * real_of_int humor
                 + mix_get comp_mix ''risk'' 0.33 * real_of_int risk
         in case calendar_signal repr_float u c of Inl e \<Rightarrow> Inl e | Inr (score, conf) \<Rightarrow>
              Inr \<lparr>user_id = uid, match_id = cid, base_sim = sim, tag_overlap = overlap,
                   age_gap = gap, energy_comp = energy, humor_comp = humor, risk_comp = risk,
                   comp_index = idx, filter_gender = gender_flag fflags,
                   filter_age = age_flag fflags, filter_city = city_flag fflags,
                   vedic_lite_score = score, vedic_confidence = conf\<rparr>))"

text \<open>\<open>by_id = {int(r["user_id"]): r for r in df.to_dict(orient="records")}\<close>: a later
  record with the same id replaces an earlier one.\<close>

fun index_by_id :: "(int \<Rightarrow> pydict option) \<Rightarrow> pydict list \<Rightarrow> py_error + (int \<Rightarrow> pydict option)" where
  "index_by_id acc [] = Inr acc"
| "index_by_id acc (r # rs) =
     (case r ''user_id'' of
        None \<Rightarrow> Inl KeyError
      | Some v \<Rightarrow> (case py_int v of Inl e \<Rightarrow> Inl e | Inr i \<Rightarrow> index_by_id (acc(i \<mapsto> r)) rs))"

definition passes :: "filter_flags \<Rightarrow> bool" where
  "passes fflags = (gender_flag fflags \<and> age_flag fflags \<and> city_flag fflags)"

text \<open>The inner loop (lines 133 to 201) over the candidates of one user.\<close>

fun candidate_rows ::
  "(real \<Rightarrow> string) \<Rightarrow> (int \<Rightarrow> pydict option) \<Rightarrow> (string \<Rightarrow> real option) \<Rightarrow>
   (string \<Rightarrow> bool option) \<Rightarrow> int \<Rightarrow> pydict \<Rightarrow> person_feats \<Rightarrow> (int \<times> real) list \<Rightarrow>
   py_error + feature_row list" where
  "candidate_rows repr_float by_id comp_mix filters uid u uf [] = Inr []"
| "candidate_rows repr_float by_id comp_mix filters uid u uf ((cid, sim) # cands) =
     (case by_id cid of
        None \<Rightarrow> candidate_rows repr_float by_id comp_mix filters uid u uf cands
      | Some c \<Rightarrow>
          (case hard_filter_flags u c filters of
             Inl e \<Rightarrow> Inl e
           | Inr fflags \<Rightarrow>
               if \<not> passes fflags then candidate_rows repr_float by_id comp_mix filters uid u uf cands
               else (case make_row repr_float comp_mix uid u uf cid sim c fflags of
                       Inl e \<Rightarrow> Inl e
                     | Inr row \<Rightarrow>
                         (case candidate_rows repr_float by_id comp_mix filters uid u uf cands of
                            Inl e \<Rightarrow> Inl e
                          | Inr rows \<Rightarrow> Inr (row # rows)))))"

text \<open>The outer loop (lines 122 to 201) over \<open>candidates.items()\<close>.\<close>

fun user_rows ::
  "(real \<Rightarrow> string) \<Rightarrow> (int \<Rightarrow> pydict option) \<Rightarrow> (string \<Rightarrow> real option) \<Rightarrow>
   (string \<Rightarrow> bool option) \<Rightarrow> (int \<times> (int \<times> real) list) list \<Rightarrow> py_error + feature_row list" where
  "user_rows repr_float by_id comp_mix filters [] = Inr []"
| "user_rows repr_float by_id comp_mix filters ((uid, cands) # others) =
     (case by_id uid of
        None \<Rightarrow> user_rows repr_float by_id comp_mix filters others
      | Some u \<Rightarrow>
          (case person_features u of
             Inl e \<Rightarrow> Inl e
           | Inr uf \<Rightarrow>
               (case candidate_rows repr_float by_id comp_mix filters uid u uf cands of
                  Inl e \<Rightarrow> Inl e
                | Inr rows \<Rightarrow>
                    (case user_rows repr_float by_id comp_mix filters others of
                       Inl e \<Rightarrow> Inl e
                     | Inr rest \<Rightarrow> Inr (rows @ rest)))))"

definition build_features ::
  "(real \<Rightarrow> string) \<Rightarrow> pydict list \<Rightarrow> (int \<times> (int \<times> real) list) list \<Rightarrow>
   (string \<Rightarrow> real option) \<Rightarrow> (string \<Rightarrow> bool option) \<Rightarrow> py_error + feature_row list" where
  "build_features repr_float df candidates comp_mix filters =
     (case index_by_id Map.empty df of
        Inl e \<Rightarrow> Inl e
      | Inr by_id \<Rightarrow> user_rows repr_float by_id comp_mix filters candidates)"

section \<open>Ranker (ranker.py)\<close>

text \<open>The configuration document: \<open>config.get("weights", {})\<close> and its siblings are maps
  (empty when the key is absent), the scalars are optional.\<close>

record config =
  cfg_weights :: "string \<Rightarrow> real option"
  cfg_vedic :: "string \<Rightarrow> real option"
  cfg_comp_mix :: "string \<Rightarrow> real option"
  cfg_filters :: "string \<Rightarrow> bool option"
  cfg_novelty_value :: "real option"
  cfg_prior_value :: "real option"
  cfg_age_penalty :: "real option"
  cfg_recall_k :: "int option"

record ranker =
  w_sim :: real
  w_comp :: real
  w_vedic :: real
  vedic_min_conf :: real
  vedic_low_shrink :: real
  w_nov :: real
  w_pri :: real
  novelty_value :: real
  prior_value :: real
  age_penalty :: real

definition or_default :: "'a option \<Rightarrow> 'a \<Rightarrow> 'a" where
  "or_default v dflt = (case v of None \<Rightarrow> dflt | Some x \<Rightarrow> x)"

definition AdditiveRanker_init :: "config \<Rightarrow> ranker" where
  "AdditiveRanker_init cfg =
     \<lparr>w_sim = mix_get (cfg_weights cfg) ''similarity'' 0.30,
      w_comp = mix_get (cfg_weights cfg) ''complementarity'' 0.20,
      w_vedic = mix_get (cfg_weights cfg) ''vedic_lite'' 0.50,
      vedic_min_conf = mix_get (cfg_vedic cfg) ''min_conf'' 0.30,
      vedic_low_shrink = mix_get (cfg_vedic cfg) ''low_conf_shrink'' 0.5,
      w_nov = mix_get (cfg_weights cfg) ''novelty'' 0.0,
      w_pri = mix_get (cfg_weights cfg) ''prior'' 0.0,
      novelty_value = or_default (cfg_novelty_value cfg) 0.05,
      prior_value = or_default (cfg_prior_value cfg) 0.0,
      age_penalty = or_default (cfg_age_penalty cfg) 0.0\<rparr>"

record scored_row = feature_row +
  novelty :: real
  prior :: real
  final_score :: real

text \<open>\<open>AdditiveRanker.score\<close> works on whole columns: the confidence column, the
  column of calendar weights chosen by \<open>np.where\<close>, then the column of final scores.
  A frame made by \<open>build_features\<close> has every column as soon as it has a row, so the
  defaults of \<open>df.get\<close> and the branch for a missing confidence column are reached only
  by the frame without rows, where the columns below are empty.\<close>

definition vedic_weights :: "ranker \<Rightarrow> real list \<Rightarrow> real list" where
  "vedic_weights rk conf =
     map (\<lambda>c. if c \<ge> vedic_min_conf rk then w_vedic rk else w_vedic rk * vedic_low_shrink rk) conf"

definition final_scores :: "ranker \<Rightarrow> feature_row list \<Rightarrow> real list" where
  "final_scores rk feats =
     (let conf = map vedic_confidence feats;
          vedic_weight = vedic_weights rk conf
      in map (\<lambda>(r, vw). w_sim rk * base_sim r + w_comp rk * comp_index r
                          + vw * vedic_lite_score r - age_penalty rk * real_of_int (age_gap r))
           (zip feats vedic_weight))"

definition score :: "ranker \<Rightarrow> feature_row list \<Rightarrow> scored_row list" where
  "score rk feats =
     map (\<lambda>(r, f). feature_row.extend r
            (scored_row.fields (novelty_value rk) (prior_value rk) f))
       (zip feats (final_scores rk feats))"

section \<open>Recall index (recall.py)\<close>

text \<open>NumPy, scikit-learn and the text of a float are libraries outside the repository;
  they are parameters of the model. A similarity of \<open>-inf\<close> is \<open>None\<close>, the least
  element of \<open>real option\<close>.\<close>

record libs =
  np_argpartition :: "real option list \<Rightarrow> nat \<Rightarrow> nat list"
  np_argsort :: "real option list \<Rightarrow> nat list"
  standardized_cosine :: "pydict list \<Rightarrow> string list \<Rightarrow> py_error + real list list"
  repr_float :: "real \<Rightarrow> string"

record 'i candidate_generator =
  user_ids :: "'i list"
  embed_cols :: "string list"
  sim_matrix :: "real list list"

record data_frame =
  columns :: "string list"
  records :: "pydict list"

text \<open>\<open>{uid: i for i, uid in enumerate(self.user_ids)}\<close>: the last position of an id.\<close>

definition id_to_idx :: "int candidate_generator \<Rightarrow> int \<Rightarrow> nat option" where
  "id_to_idx cg = map_of (rev (zip (user_ids cg) [0..<length (user_ids cg)]))"

definition topk_for_user :: "libs \<Rightarrow> int candidate_generator \<Rightarrow> int \<Rightarrow> int \<Rightarrow> (int \<times> real option) list" where
  "topk_for_user np cg uid k =
     (case id_to_idx cg uid of
        None \<Rightarrow> []
      | Some idx \<Rightarrow>
          (let sims = (map Some (sim_matrix cg ! idx))[idx := None];
               k_eff = min k (int (length sims) - 1)
           in if k_eff \<le> 0 then []
              else
                (let kth = length sims - nat k_eff;
                     top_idx = drop kth (np_argpartition np sims kth);
                     top_sorted = map (\<lambda>i. top_idx ! i)
                                    (rev (np_argsort np (map (\<lambda>j. sims ! j) top_idx)))
                 in map (\<lambda>j. (user_ids cg ! j, sims ! j)) top_sorted)))"

text \<open>A dictionary keeps a key at the place of its first insertion.\<close>

definition topk_for_all :: "libs \<Rightarrow> int candidate_generator \<Rightarrow> int \<Rightarrow> (int \<times> (int \<times> real option) list) list" where
  "topk_for_all np cg k =
     map (\<lambda>uid. (uid, topk_for_user np cg uid k)) (rev (remdups (rev (user_ids cg))))"

definition find_embedding_columns :: "data_frame \<Rightarrow> py_error + string list" where
  "find_embedding_columns df =
     (let cols = filter (\<lambda>c. startswith c ''t_'' \<or> startswith c ''e_'') (columns df)
      in if cols = [] then Inl ValueError else Inr (sort cols))"

text \<open>\<open>CandidateGenerator.__init__\<close> keeps the cells of the id column as they are
  (\<open>self.df["user_id"].tolist()\<close>). The queries above are modelled for a column of
  integers, the key of the data model, on which \<open>int(self.user_ids[j])\<close> is the identity.\<close>

definition CandidateGenerator_init ::
  "libs \<Rightarrow> data_frame \<Rightarrow> string list \<Rightarrow> py_error + pyval candidate_generator" where
  "CandidateGenerator_init np df cols =
     (if ''user_id'' \<notin> set (columns df) then Inl ValueError
      else (case standardized_cosine np (records df) cols of
              Inl e \<Rightarrow> Inl e
            | Inr m \<Rightarrow> Inr \<lparr>user_ids = map (\<lambda>r. dget r ''user_id'') (records df),
                           embed_cols = cols, sim_matrix = m\<rparr>))"

section \<open>Pipeline (pipeline.py)\<close>

record pipeline =
  pipe_config :: config
  pipe_df :: data_frame
  pipe_embed_cols :: "string list"
  cand_gen :: "pyval candidate_generator"
  pipe_ranker :: ranker
  recall_k :: int

text \<open>\<open>RecommenderPipeline.__init__\<close>: \<open>json.load\<close> and \<open>pd.read_csv\<close> either raise or
  give the document and the frame.\<close>

definition RecommenderPipeline_init ::
  "libs \<Rightarrow> py_error + config \<Rightarrow> py_error + data_frame \<Rightarrow> py_error + pipeline" where
  "RecommenderPipeline_init np config_file data_file =
     (case config_file of Inl e \<Rightarrow> Inl e | Inr cfg \<Rightarrow>
      case data_file of Inl e \<Rightarrow> Inl e | Inr df \<Rightarrow>
      case find_embedding_columns df of Inl e \<Rightarrow> Inl e | Inr cols \<Rightarrow>
      case CandidateGenerator_init np df cols of Inl e \<Rightarrow> Inl e | Inr cg \<Rightarrow>
        Inr \<lparr>pipe_config = cfg, pipe_df = df, pipe_embed_cols = cols, cand_gen = cg,
             pipe_ranker = AdditiveRanker_init cfg,
             recall_k = or_default (cfg_recall_k cfg) 100\<rparr>)"

section \<open>The calendar score in the words of the specification\<close>

text \<open>The day-of-year distance wrapped modulo 365, a triangular kernel that decays over
  91.25 days from its peak and is floored at 0, and the 0.6/0.4 blend clamped to the unit
  interval. These three follow the specification; they are compared with the source's
  \<open>day_distance\<close> and \<open>kernel_score\<close> below.\<close>

definition spec_wrapped_distance :: "nat \<Rightarrow> nat \<Rightarrow> int" where
  "spec_wrapped_distance a b = min ((int a - int b) mod 365) ((int b - int a) mod 365)"

definition spec_triangular :: "real \<Rightarrow> real \<Rightarrow> real" where
  "spec_triangular peak d = max 0 (1 - \<bar>d - peak\<bar> / 91.25)"

definition spec_calendar_score :: "nat \<Rightarrow> nat \<Rightarrow> real" where
  "spec_calendar_score a b =
     (let d = real_of_int (spec_wrapped_distance a b)
      in max 0 (min 1 (0.6 * spec_triangular 0 d + 0.4 * spec_triangular 182.5 d)))"

section \<open>Notions used to state the properties of the feature engine\<close>

text \<open>The normalised text of a cell as the calendar block reads it, and the rows of the
  feature engine's output: an assembly that raised has put out no row.\<close>

definition field_text :: "(real \<Rightarrow> string) \<Rightarrow> pydict \<Rightarrow> string \<Rightarrow> string" where
  "field_text rf u key = py_lower (py_strip (py_str rf (dget_default u key (PStr []))))"


section \<open>What the model asks of NumPy and of the similarity table\<close>

text \<open>\<open>np.argpartition(a, kth)\<close> returns a permutation of the positions that puts the
  element of rank \<open>kth\<close> at position \<open>kth\<close>, nothing greater before it and nothing smaller
  after it; \<open>np.argsort(a)\<close> returns a permutation of the positions that sorts \<open>a\<close>. The
  order of equal elements is not fixed by either. The similarity table is square, of
  the size of the population.\<close>

definition argpartition_ok :: "libs \<Rightarrow> bool" where
  "argpartition_ok np =
     (\<forall>xs kth. kth < length xs \<longrightarrow>
        (let p = np_argpartition np xs kth
         in length p = length xs \<and> set p = {..<length xs}
            \<and> (\<forall>i<kth. xs ! (p ! i) \<le> xs ! (p ! kth))
            \<and> (\<forall>i. kth < i \<and> i < length xs \<longrightarrow> xs ! (p ! kth) \<le> xs ! (p ! i))))"

definition argsort_ok :: "libs \<Rightarrow> bool" where
  "argsort_ok np =
     (\<forall>xs. let q = np_argsort np xs
           in length q = length xs \<and> set q = {..<length xs} \<and> sorted (map (\<lambda>i. xs ! i) q))"

definition wf_generator :: "int candidate_generator \<Rightarrow> bool" where
  "wf_generator cg =
     (length (sim_matrix cg) = length (user_ids cg)
      \<and> (\<forall>row \<in> set (sim_matrix cg). length row = length (user_ids cg)))"

text \<open>The positions that \<open>topk_for_user\<close> returns, as a function of the masked row of
  similarities and of \<open>k_eff\<close> (lines 45 to 47 of recall.py), and the order the
  specification asks of candidates with equal similarity.\<close>

definition top_positions :: "libs \<Rightarrow> real option list \<Rightarrow> nat \<Rightarrow> nat list" where
  "top_positions np sims ke =
     (let kth = length sims - ke;
          top_idx = drop kth (np_argpartition np sims kth)
      in map (\<lambda>i. top_idx ! i) (rev (np_argsort np (map (\<lambda>j. sims ! j) top_idx))))"

definition ties_by_ascending_id :: "(int \<times> real option) list \<Rightarrow> bool" where
  "ties_by_ascending_id result = sorted_wrt (\<lambda>a b. snd a = snd b \<longrightarrow> fst a < fst b) result"

section \<open>Example data\<close>

definition sample_config :: config where
  "sample_config = \<lparr>cfg_weights = Map.empty, cfg_vedic = Map.empty, cfg_comp_mix = Map.empty,
     cfg_filters = Map.empty, cfg_novelty_value = None, cfg_prior_value = None,
     cfg_age_penalty = Some 0.01, cfg_recall_k = None\<rparr>"

definition sample_row :: "real \<Rightarrow> feature_row" where
  "sample_row conf = \<lparr>user_id = 1, match_id = 2, base_sim = 0.5, tag_overlap = 1, age_gap = 3,
     energy_comp = 1, humor_comp = 0, risk_comp = 0, comp_index = 0.34, filter_gender = True,
     filter_age = True, filter_city = True, vedic_lite_score = 0.6, vedic_confidence = conf\<rparr>"

text \<open>A stand-in for the text of a float; no cell of the examples is a float.\<close>

definition plain_repr :: "real \<Rightarrow> string" where
  "plain_repr r = ''0.5''"

definition born :: "pyval \<Rightarrow> string \<Rightarrow> pyval \<Rightarrow> pydict" where
  "born d city t = [''birth_date'' \<mapsto> d, ''birth_city'' \<mapsto> PStr city, ''birth_time'' \<mapsto> t]"

definition age_only :: "string \<Rightarrow> bool option" where
  "age_only = [''age'' \<mapsto> True]"

definition pref_min :: "int \<Rightarrow> pydict" where
  "pref_min lo = [''user_id'' \<mapsto> PInt 1, ''min_age_pref'' \<mapsto> PInt lo]"

definition no_age :: pydict where
  "no_age = [''user_id'' \<mapsto> PInt 2, ''age'' \<mapsto> PNaN]"

definition no_user_id_frame :: data_frame where
  "no_user_id_frame = \<lparr>columns = [''name'', ''t_0'', ''e_0''], records = []\<rparr>"

definition no_embedding_frame :: data_frame where
  "no_embedding_frame = \<lparr>columns = [''user_id'', ''name'', ''age''],
                           records = [[''user_id'' \<mapsto> PInt 1]]\<rparr>"

text \<open>A NumPy whose \<open>argsort\<close> and \<open>argpartition\<close> are the stable sort of the positions
  (what NumPy's insertion sort does on short arrays), for the examples.\<close>

definition stable_argsort :: "real option list \<Rightarrow> nat list" where
  "stable_argsort xs = sort_key (\<lambda>i. xs ! i) [0..<length xs]"

definition example_libs :: libs where
  "example_libs = \<lparr>np_argpartition = (\<lambda>xs kth. stable_argsort xs),
                    np_argsort = stable_argsort,
                    standardized_cosine = (\<lambda>recs cols. Inr (map (\<lambda>r. map (\<lambda>r'. 0) recs) recs)),
                    repr_float = plain_repr\<rparr>"

definition seeker :: pydict where
  "seeker = [''user_id'' \<mapsto> PInt 1, ''gender_interest'' \<mapsto> PStr ''F'']"

definition woman :: pydict where
  "woman = [''user_id'' \<mapsto> PInt 2, ''gender'' \<mapsto> PStr ''F'']"

definition man :: pydict where
  "man = [''user_id'' \<mapsto> PInt 3, ''gender'' \<mapsto> PStr ''M'']"


definition plain_row :: "int \<Rightarrow> int \<Rightarrow> real \<Rightarrow> feature_row" where
  "plain_row uid cid sim = \<lparr>user_id = uid, match_id = cid, base_sim = sim, tag_overlap = 0,
     age_gap = 0, energy_comp = 0, humor_comp = 0, risk_comp = 0, comp_index = 0,
     filter_gender = True, filter_age = True, filter_city = True,
     vedic_lite_score = 0, vedic_confidence = 0\<rparr>"

text \<open>Three users, the second and the third with the same embedding: their
  similarities to the first are equal.\<close>

definition tie_generator :: "int candidate_generator" where
  "tie_generator = \<lparr>user_ids = [0, 1, 2], embed_cols = [],
                     sim_matrix = [[1, 0.5, 0.5], [0.5, 1, 1], [0.5, 1, 1]]\<rparr>"

definition tie_generator_swapped :: "int candidate_generator" where
  "tie_generator_swapped = \<lparr>user_ids = [0, 2, 1], embed_cols = [],
                             sim_matrix = [[1, 0.5, 0.5], [0.5, 1, 1], [0.5, 1, 1]]\<rparr>"

section \<open>The ranker's score\<close>

lemma final_scores_nth:
  "i < length feats \<Longrightarrow> final_scores rk feats ! i =
   w_sim rk * base_sim (feats ! i) + w_comp rk * comp_index (feats ! i)
   + (if vedic_confidence (feats ! i) \<ge> vedic_min_conf rk then w_vedic rk
      else w_vedic rk * vedic_low_shrink rk) * vedic_lite_score (feats ! i)
   - age_penalty rk * real_of_int (age_gap (feats ! i))"
  by (simp add: final_scores_def vedic_weights_def Let_def)

lemma length_final_scores: "length (final_scores rk feats) = length feats"
  by (simp add: final_scores_def vedic_weights_def Let_def)

text \<open>
  C1. Every row of the scored frame carries
  \<open>w_sim * base_sim + w_comp * comp_index + w_cal * vedic_lite_score - age_penalty * age_gap\<close>,
  where the weights are the configured ones (or their defaults) and \<open>w_cal\<close> is the
  configured calendar weight when the row's confidence reaches the configured minimum,
  and that weight times the configured shrink factor otherwise.
\<close>

theorem ranker_final_score:
  assumes "i < length feats"
  shows "final_score (score (AdditiveRanker_init cfg) feats ! i) =
     (let r = feats ! i;
          w_cal = (if vedic_confidence r \<ge> mix_get (cfg_vedic cfg) ''min_conf'' 0.30
                   then mix_get (cfg_weights cfg) ''vedic_lite'' 0.50
                   else mix_get (cfg_weights cfg) ''vedic_lite'' 0.50
                        * mix_get (cfg_vedic cfg) ''low_conf_shrink'' 0.5)
      in mix_get (cfg_weights cfg) ''similarity'' 0.30 * base_sim r
         + mix_get (cfg_weights cfg) ''complementarity'' 0.20 * comp_index r
         + w_cal * vedic_lite_score r
         - or_default (cfg_age_penalty cfg) 0.0 * real_of_int (age_gap r))"
  using assms
  by (simp add: score_def length_final_scores final_scores_nth AdditiveRanker_init_def Let_def
        feature_row.extend_def scored_row.fields_def)

theorem ranker_final_score_witness:
  "final_score (score (AdditiveRanker_init sample_config) [sample_row 0.8, sample_row 0.1] ! 0) = 0.488
   \<and> final_score (score (AdditiveRanker_init sample_config) [sample_row 0.8, sample_row 0.1] ! 1) = 0.338"
  using ranker_final_score [of 0 "[sample_row 0.8, sample_row 0.1]" sample_config]
        ranker_final_score [of 1 "[sample_row 0.8, sample_row 0.1]" sample_config]
  by (simp add: sample_config_def sample_row_def mix_get_def or_default_def)

section \<open>Dates and the calendar score\<close>

lemma make_date_fields:
  "make_date y m d = Inr dt \<Longrightarrow>
     year dt = y \<and> month dt = m \<and> day dt = d \<and> 1 \<le> m \<and> m \<le> 12 \<and> 1 \<le> d \<and> d \<le> days_in_month y m"
  by (auto simp: make_date_def split: if_splits)

lemma month_cases:
  "1 \<le> (m::nat) \<Longrightarrow> m \<le> 12 \<Longrightarrow>
     m = 1 \<or> m = 2 \<or> m = 3 \<or> m = 4 \<or> m = 5 \<or> m = 6 \<or> m = 7 \<or> m = 8 \<or> m = 9 \<or> m = 10 \<or> m = 11 \<or> m = 12"
  by arith

lemma days_before_month_le:
  assumes "1 \<le> m" "m \<le> 12"
  shows "(\<Sum>j \<leftarrow> [1..<m]. days_in_month y j) + days_in_month y m \<le> 366"
  using month_cases [OF assms]
  by (elim disjE) (simp_all add: upt_rec days_in_month_def)

lemma make_date_yday:
  assumes "make_date y m d = Inr dt"
  shows "1 \<le> tm_yday dt \<and> tm_yday dt \<le> 366"
proof -
  from make_date_fields [OF assms] have f: "year dt = y" "month dt = m" "day dt = d"
    "1 \<le> m" "m \<le> 12" "1 \<le> d" "d \<le> days_in_month y m" by simp_all
  from days_before_month_le [OF f(4,5), of y] f show ?thesis
    by (simp add: tm_yday_def)
qed

lemma parse_date_make:
  "parse_date s = Inr dt \<Longrightarrow> \<exists>y m d. make_date y m d = Inr dt"
  by (auto simp: parse_date_def split: list.splits if_splits prod.splits)

lemma parse_date_yday:
  "parse_date s = Inr dt \<Longrightarrow> 1 \<le> tm_yday dt \<and> tm_yday dt \<le> 366"
  using parse_date_make make_date_yday by blast

lemma day_distance_sym: "day_distance a b = day_distance b a"
  by (simp add: day_distance_def abs_minus_commute)

lemma day_distance_wrapped:
  assumes "1 \<le> a" "a \<le> 366" "1 \<le> b" "b \<le> 366"
  shows "day_distance a b = spec_wrapped_distance a b"
proof -
  define k where "k = int a - int b"
  have kb: "- 365 \<le> k" "k \<le> 365" using assms by (simp_all add: k_def)
  have "min \<bar>k\<bar> (365 - \<bar>k\<bar>) = min (k mod 365) ((- k) mod 365)"
  proof -
    consider "k = 365" | "k = -365" | "0 \<le> k" "k < 365" | "-365 < k" "k < 0" using kb by linarith
    then show ?thesis
    proof cases
      case 1 then show ?thesis by simp
    next
      case 2 then show ?thesis by simp
    next
      case 3
      then have "k mod 365 = k" by simp
      moreover have "(- k) mod 365 = (if k = 0 then 0 else 365 - k)"
        using 3 by (simp add: zmod_zminus1_eq_if)
      ultimately show ?thesis using 3 by auto
    next
      case 4
      then have "(- k) mod 365 = - k" by simp
      moreover have "k mod 365 = 365 + k"
      proof -
        have "k mod 365 = (k + 365) mod 365" by simp
        also have "\<dots> = k + 365" using 4 by (intro mod_pos_pos_trivial) auto
        finally show ?thesis by simp
      qed
      ultimately show ?thesis using 4 by auto
    qed
  qed
  then show ?thesis
    by (simp add: day_distance_def spec_wrapped_distance_def k_def Let_def)
qed

lemma kernel_score_spec:
  "kernel_score d = max 0 (min 1 (0.6 * spec_triangular 0 (real_of_int d)
                                   + 0.4 * spec_triangular 182.5 (real_of_int d)))"
  if "0 \<le> d"
  using that by (simp add: kernel_score_def spec_triangular_def Let_def max_def min_def)

lemma kernel_score_bounds: "0 \<le> kernel_score d \<and> kernel_score d \<le> 1"
  by (simp add: kernel_score_def Let_def)

lemma day_distance_nonneg: "a \<le> 366 \<Longrightarrow> b \<le> 366 \<Longrightarrow> 1 \<le> a \<Longrightarrow> 1 \<le> b \<Longrightarrow> 0 \<le> day_distance a b"
  by (simp add: day_distance_def Let_def)

text \<open>
  C9. The calendar score is symmetric in its two arguments, for all texts, parseable or not.
\<close>

theorem calendar_score_symmetric:
  "vedic_lite_weighted_score a b = vedic_lite_weighted_score b a"
  by (simp add: vedic_lite_weighted_score_def day_distance_sym split: sum.splits)

lemma score_of_parsed:
  assumes "parse_date a = Inr da" "parse_date b = Inr db"
  shows "vedic_lite_weighted_score a b = spec_calendar_score (tm_yday da) (tm_yday db)"
proof -
  from parse_date_yday [OF assms(1)] parse_date_yday [OF assms(2)]
  have r: "1 \<le> tm_yday da" "tm_yday da \<le> 366" "1 \<le> tm_yday db" "tm_yday db \<le> 366" by simp_all
  have w: "day_distance (tm_yday da) (tm_yday db) = spec_wrapped_distance (tm_yday da) (tm_yday db)"
    using r by (rule day_distance_wrapped)
  have n: "0 \<le> day_distance (tm_yday da) (tm_yday db)"
    using r by (simp add: day_distance_nonneg)
  show ?thesis
    using assms kernel_score_spec [OF n]
    by (simp add: vedic_lite_weighted_score_def spec_calendar_score_def w Let_def)
qed

text \<open>
  C4. For two texts that \<open>strptime\<close> parses, the calendar score is the clamp to the unit
  interval of 0.6 times the triangular kernel peaking at wrapped distance 0 plus 0.4 times
  the one peaking at 182.5, the distance being the day-of-year distance wrapped modulo
  365. Two users born on "2000-01-01" score 0.6: the whole same-season share, and nothing
  from the opposite-season kernel.
\<close>

theorem calendar_score_kernels:
  assumes "parse_date a = Inr da" "parse_date b = Inr db"
  shows "vedic_lite_weighted_score a b = spec_calendar_score (tm_yday da) (tm_yday db)
         \<and> vedic_lite_weighted_score ''2000-01-01'' ''2000-01-01'' = 0.6 * spec_triangular 0 0
         \<and> spec_triangular 0 0 = 1 \<and> spec_triangular 182.5 0 = 0"
proof -
  have "vedic_lite_weighted_score ''2000-01-01'' ''2000-01-01'' = 0.6" by code_simp
  moreover have "spec_triangular 0 0 = 1" "spec_triangular 182.5 0 = 0"
    by (simp_all add: spec_triangular_def)
  ultimately show ?thesis using score_of_parsed [OF assms] by simp
qed

lemma parse_jan1: "parse_date ''2000-01-01'' = Inr \<lparr>year = 2000, month = 1, day = 1\<rparr>"
  by code_simp

lemma parse_jul1: "parse_date ''2000-07-01'' = Inr \<lparr>year = 2000, month = 7, day = 1\<rparr>"
  by code_simp

theorem calendar_score_kernels_witness:
  "vedic_lite_weighted_score ''2000-01-01'' ''2000-07-01''
     = spec_calendar_score (tm_yday \<lparr>year = 2000, month = 1, day = 1\<rparr>)
                           (tm_yday \<lparr>year = 2000, month = 7, day = 1\<rparr>)
   \<and> vedic_lite_weighted_score ''2000-01-01'' ''2000-07-01'' = 726 / 1825
   \<and> vedic_lite_weighted_score ''2000-01-01'' ''2000-01-01'' = 0.6"
proof -
  have "vedic_lite_weighted_score ''2000-01-01'' ''2000-07-01'' = 726 / 1825" by code_simp
  then show ?thesis
    using calendar_score_kernels [OF parse_jan1 parse_jul1]
    by (simp add: spec_triangular_def)
qed

section \<open>The calendar block of the feature engine\<close>

lemma normalize_text_str: "normalize_text (PStr s) = Inr (py_lower (py_strip s))"
  by (simp add: normalize_text_def py_or_def py_strip_def py_lower_def)

lemma text_field_total: "text_field rf u key = Inr (field_text rf u key)"
  by (simp add: text_field_def field_text_def normalize_text_str)

lemma length_tables:
  "length TITHIS = 30" "length PAKSHAS = 2" "length NAKSHATRAS = 27" "length YOGAS = 27"
  by (simp_all add: TITHIS_def PAKSHAS_def NAKSHATRAS_def YOGAS_def)

lemma hindu_date_parsed:
  assumes "parse_date d = Inr dt"
  shows "\<exists>h. hindu_date_from_date d la lo tz = Inr h
             \<and> confidence h = base_confidence la (tm_yday dt)"
  using assms
  by (simp add: hindu_date_from_date_def list_get_def length_tables Let_def)

lemma hindu_date_unparsed:
  "parse_date d = Inl e \<Longrightarrow> hindu_date_from_date d la lo tz = Inl e"
  by (simp add: hindu_date_from_date_def)

lemma base_confidence_bounds: "0 \<le> base_confidence la doy \<and> base_confidence la doy \<le> 1"
  by (simp add: base_confidence_def Let_def)

lemma boosted_bounds: "0 \<le> x \<Longrightarrow> x \<le> 1 \<Longrightarrow> 0 \<le> boosted x t \<and> boosted x t \<le> 1"
  by (simp add: boosted_def)

lemma pair_confidence_parsed:
  assumes "parse_date ud = Inr du" "parse_date cd = Inr dc"
  shows "pair_confidence rf u c ud cd (ula, ulo, utz) (cla, clo, ctz) =
           Inr (min (boosted (base_confidence ula (tm_yday du)) (field_text rf u ''birth_time''))
                    (boosted (base_confidence cla (tm_yday dc)) (field_text rf c ''birth_time'')))"
proof -
  obtain hu where hu: "hindu_date_from_date ud ula ulo utz = Inr hu"
      "confidence hu = base_confidence ula (tm_yday du)"
    using hindu_date_parsed [OF assms(1)] by blast
  obtain hc where hc: "hindu_date_from_date cd cla clo ctz = Inr hc"
      "confidence hc = base_confidence cla (tm_yday dc)"
    using hindu_date_parsed [OF assms(2)] by blast
  let ?a = "boosted (base_confidence ula (tm_yday du)) (field_text rf u ''birth_time'')"
  let ?b = "boosted (base_confidence cla (tm_yday dc)) (field_text rf c ''birth_time'')"
  have a: "0 \<le> ?a \<and> ?a \<le> 1" using base_confidence_bounds boosted_bounds by blast
  have b: "0 \<le> ?b \<and> ?b \<le> 1" using base_confidence_bounds boosted_bounds by blast
  have "max 0 (min 1 (min ?a ?b)) = min ?a ?b" using a b by (simp add: min_def max_def)
  then show ?thesis
    by (simp add: pair_confidence_def hu hc text_field_total Let_def)
qed

lemma pair_confidence_unparsed:
  assumes "parse_date ud = Inl e \<or> parse_date cd = Inl e"
  shows "\<exists>e'. pair_confidence rf u c ud cd ug cg = Inl e'"
proof (cases "parse_date ud")
  case (Inl a)
  then show ?thesis
    by (cases ug; cases cg) (simp add: pair_confidence_def hindu_date_unparsed)
next
  case (Inr du)
  with assms have c: "parse_date cd = Inl e" by simp
  obtain ula ulo utz where ug: "ug = (ula, ulo, utz)" by (cases ug) auto
  obtain cla clo ctz where cg: "cg = (cla, clo, ctz)" by (cases cg) auto
  obtain hu where "hindu_date_from_date ud ula ulo utz = Inr hu"
    using hindu_date_parsed [OF Inr] by blast
  then show ?thesis
    by (simp add: pair_confidence_def ug cg hindu_date_unparsed [OF c])
qed

lemma calendar_signal_parsed:
  assumes "length (field_text rf u ''birth_date'') = 10"
      and "length (field_text rf c ''birth_date'') = 10"
      and "parse_date (field_text rf u ''birth_date'') = Inr du"
      and "parse_date (field_text rf c ''birth_date'') = Inr dc"
      and "city_geocode (dget u ''birth_city'') = Inr (ula, ulo, utz)"
      and "city_geocode (dget c ''birth_city'') = Inr (cla, clo, ctz)"
  shows "calendar_signal rf u c =
           Inr (vedic_lite_weighted_score (field_text rf u ''birth_date'') (field_text rf c ''birth_date''),
                min (boosted (base_confidence ula (tm_yday du)) (field_text rf u ''birth_time''))
                    (boosted (base_confidence cla (tm_yday dc)) (field_text rf c ''birth_time'')))"
proof -
  have "field_text rf u ''birth_date'' \<noteq> []" "field_text rf c ''birth_date'' \<noteq> []"
    using assms(1,2) by auto
  then show ?thesis
    using assms(1,2)
    by (simp add: calendar_signal_def text_field_total assms(5,6)
          pair_confidence_parsed [OF assms(3,4)] Let_def)
qed

lemma born_fields:
  "field_text rf (born d city t) ''birth_date'' = py_lower (py_strip (py_str rf d))"
  "field_text rf (born d city t) ''birth_time'' = py_lower (py_strip (py_str rf t))"
  "dget (born d city t) ''birth_city'' = PStr city"
  by (simp_all add: field_text_def born_def dget_default_def dget_def)

lemma sample_texts:
  "py_lower (py_strip ''2000-01-01'') = ''2000-01-01''"
  "py_lower (py_strip '' 2000-07-01 '') = ''2000-07-01''"
  "py_lower (py_strip ''nan'') = ''nan''"
  "py_lower (py_strip ''14:30'') = ''14:30''"
  "py_lower (py_strip []) = []"
  by code_simp+

lemma sample_cities:
  "city_geocode (PStr ''Delhi'') = Inr (28.6139, 77.2090, 5.5)"
  "city_geocode (PStr ''Mumbai'') = Inr (19.0760, 72.8777, 5.5)"
  by code_simp+

lemma sample_dates:
  "parse_date ''2000-01-01'' = Inr \<lparr>year = 2000, month = 1, day = 1\<rparr>"
  "parse_date ''2000-07-01'' = Inr \<lparr>year = 2000, month = 7, day = 1\<rparr>"
  "tm_yday \<lparr>year = 2000, month = 1, day = 1\<rparr> = 1"
  "tm_yday \<lparr>year = 2000, month = 7, day = 1\<rparr> = 183"
  by code_simp+

lemma delhi_new_year: "base_confidence 28.6139 1 = 165111853 / 273000000"
  by code_simp

lemma delhi_new_year_Suc: "base_confidence (286139 / 10000) (Suc 0) = 165111853 / 273000000"
  using delhi_new_year by simp

text \<open>
  C6. With two parseable birth dates the pair's confidence is the minimum of the two
  persons' confidences (\<open>calendar_signal_parsed\<close>), each in the unit interval, but the
  bonus of 0.15 is given whenever the text of the birth-time cell is not empty, and the
  text of a missing cell (\<open>nan\<close>, as pandas reads an empty field) is \<open>"nan"\<close>. Two users
  born on "2000-01-01" in Delhi with no birth time get the boosted confidence; with an
  empty text in the cell they get the baseline.
\<close>

theorem missing_birth_time_boosted:
  "calendar_signal rf (born (PStr ''2000-01-01'') ''Delhi'' PNaN)
                      (born (PStr ''2000-01-01'') ''Delhi'' PNaN)
     = Inr (0.6, base_confidence 28.6139 1 + 0.15)
   \<and> calendar_signal rf (born (PStr ''2000-01-01'') ''Delhi'' (PStr []))
                        (born (PStr ''2000-01-01'') ''Delhi'' (PStr []))
     = Inr (0.6, base_confidence 28.6139 1)
   \<and> base_confidence 28.6139 1 = 165111853 / 273000000"
proof -
  have s: "vedic_lite_weighted_score ''2000-01-01'' ''2000-01-01'' = 0.6" by code_simp
  have a: "calendar_signal rf (born (PStr ''2000-01-01'') ''Delhi'' t)
                      (born (PStr ''2000-01-01'') ''Delhi'' t)
     = Inr (0.6, boosted (base_confidence 28.6139 1) (py_lower (py_strip (py_str rf t))))" for t
    using calendar_signal_parsed [where rf = rf
            and u = "born (PStr ''2000-01-01'') ''Delhi'' t"
            and c = "born (PStr ''2000-01-01'') ''Delhi'' t"
            and du = "\<lparr>year = 2000, month = 1, day = 1\<rparr>"
            and dc = "\<lparr>year = 2000, month = 1, day = 1\<rparr>"
            and ula = "28.6139" and ulo = "77.2090" and utz = "5.5"
            and cla = "28.6139" and clo = "77.2090" and ctz = "5.5"]
    by (simp add: born_fields sample_texts sample_cities sample_dates s tm_yday_def)
  show ?thesis
    using a [of PNaN] a [of "PStr []"]
    by (simp add: sample_texts boosted_def delhi_new_year_Suc)
qed

text \<open>
  C5. The calendar block of \<open>build_features\<close> is to give a score and a confidence for
  every pair of birth dates and never to raise. The two \<open>_city_geocode\<close> calls stand
  before the \<open>try\<close>: for two users born on "2000-01-01", one of them with a missing birth
  city (\<open>nan\<close>, as pandas reads an empty field), \<open>_normalize_text\<close> raises \<open>AttributeError\<close>
  out of the block, and there is neither score nor confidence.
\<close>

theorem missing_birth_city_raises:
  "calendar_signal rf (born (PStr ''2000-01-01'') ''Delhi'' (PStr []))
      ((born (PStr ''2000-01-01'') ''Delhi'' (PStr []))(''birth_city'' \<mapsto> PNaN)) = Inl AttributeError"
proof -
  have "field_text rf ((born (PStr ''2000-01-01'') ''Delhi'' (PStr []))(''birth_city'' \<mapsto> PNaN)) ''birth_date''
          = ''2000-01-01''"
    by (simp add: field_text_def born_def dget_default_def sample_texts)
  moreover have "dget ((born (PStr ''2000-01-01'') ''Delhi'' (PStr []))(''birth_city'' \<mapsto> PNaN)) ''birth_city'' = PNaN"
    by (simp add: dget_def)
  moreover have "city_geocode PNaN = Inl AttributeError"
    by (simp add: city_geocode_def normalize_text_def py_or_def)
  ultimately show ?thesis
    by (simp add: calendar_signal_def text_field_total born_fields sample_texts sample_cities Let_def)
qed

section \<open>The age filter and the construction of the pipeline\<close>

lemma flags_age: "hard_filter_flags u c filters = Inr fl \<Longrightarrow> age_flag fl = age_check u c filters"
  by (auto simp: hard_filter_flags_def Let_def split: sum.splits)

text \<open>
  C10 (as amended). With the age filter enabled, a candidate whose age cell \<open>int\<close> cannot
  read (missing, \<open>nan\<close>, empty or non-numeric text) is filtered as a candidate of age 0:
  the pair passes the age filter exactly when the user's minimum-age preference is absent
  or at most 0 and the maximum-age preference is absent or at least 0. So the pair is
  dropped for every user whose minimum-age bound is above 0.
\<close>

theorem missing_age_filter:
  assumes "filter_on filters ''age''"
      and "int_or_none (dget c ''age'') = None"
      and "hard_filter_flags u c filters = Inr fl"
  shows "(age_flag fl \<longleftrightarrow>
            (case int_or_none (dget u ''min_age_pref'') of None \<Rightarrow> True | Some lo \<Rightarrow> lo \<le> 0)
          \<and> (case int_or_none (dget u ''max_age_pref'') of None \<Rightarrow> True | Some hi \<Rightarrow> 0 \<le> hi))
       \<and> age_check u c filters = age_check u (c(''age'' \<mapsto> PInt 0)) filters
       \<and> (\<forall>lo. int_or_none (dget u ''min_age_pref'') = Some lo \<longrightarrow> 0 < lo \<longrightarrow> \<not> passes fl)"
proof -
  have z: "int_or_none (dget (c(''age'' \<mapsto> PInt 0)) ''age'') = Some 0"
    by (simp add: dget_def int_or_none_def)
  have a: "age_check u c filters \<longleftrightarrow>
            (case int_or_none (dget u ''min_age_pref'') of None \<Rightarrow> True | Some lo \<Rightarrow> lo \<le> 0)
          \<and> (case int_or_none (dget u ''max_age_pref'') of None \<Rightarrow> True | Some hi \<Rightarrow> 0 \<le> hi)"
    using assms(1,2) by (auto simp: age_check_def Let_def split: option.splits)
  have b: "age_check u (c(''age'' \<mapsto> PInt 0)) filters = age_check u c filters"
    using assms(1,2) z by (simp add: age_check_def Let_def)
  show ?thesis
    using a b flags_age [OF assms(3)] by (auto simp: passes_def)
qed

lemma unreadable_age_cells:
  "int_or_none PNone = None" "int_or_none PNaN = None" "int_or_none (PStr []) = None"
  "int_or_none (PStr ''abc'') = None" "int_or_none (PStr ''29.5'') = None"
  by code_simp+

theorem missing_age_filter_witness:
  "hard_filter_flags (pref_min 25) no_age age_only
       = Inr \<lparr>gender_flag = True, age_flag = False, city_flag = True\<rparr>
   \<and> \<not> passes \<lparr>gender_flag = True, age_flag = False, city_flag = True\<rparr>
   \<and> age_check (pref_min 25) no_age age_only
       = age_check (pref_min 25) (no_age(''age'' \<mapsto> PInt 0)) age_only"
proof -
  have f: "filter_on age_only ''age''" by (simp add: filter_on_def age_only_def)
  have n: "int_or_none (dget no_age ''age'') = None"
    by (simp add: no_age_def dget_def int_or_none_def)
  have h: "hard_filter_flags (pref_min 25) no_age age_only
       = Inr \<lparr>gender_flag = True, age_flag = False, city_flag = True\<rparr>"
    by code_simp
  have m: "int_or_none (dget (pref_min 25) ''min_age_pref'') = Some 25"
    by (simp add: pref_min_def dget_def int_or_none_def)
  show ?thesis
    using missing_age_filter [OF f n h] h m by simp
qed

text \<open>A user whose minimum-age preference is 0 has a minimum-age preference, and the
  candidate without an age passes the enabled age filter.\<close>

theorem missing_age_passes_min_zero:
  "hard_filter_flags (pref_min 0) no_age age_only
       = Inr \<lparr>gender_flag = True, age_flag = True, city_flag = True\<rparr>
   \<and> filter_on age_only ''age''
   \<and> int_or_none (dget no_age ''age'') = None
   \<and> int_or_none (dget (pref_min 0) ''min_age_pref'') = Some 0"
  by code_simp

text \<open>
  C8. Constructing the pipeline fails, with the \<open>ValueError\<close> that the source raises for
  a configuration error, when the dataset has no \<open>user_id\<close> column or no column whose name
  starts with \<open>t_\<close> or \<open>e_\<close>; whatever the configuration file, the result is an error and
  no pipeline value.
\<close>

theorem init_fails:
  assumes "''user_id'' \<notin> set (columns df)
           \<or> \<not> (\<exists>c \<in> set (columns df). startswith c ''t_'' \<or> startswith c ''e_'')"
  shows "RecommenderPipeline_init np (Inr cfg) (Inr df) = Inl ValueError
         \<and> (\<forall>config_file. \<exists>e. RecommenderPipeline_init np config_file (Inr df) = Inl e)"
proof -
  have a: "RecommenderPipeline_init np (Inr cfg') (Inr df) = Inl ValueError" for cfg'
  proof (cases "filter (\<lambda>c. startswith c ''t_'' \<or> startswith c ''e_'') (columns df) = []")
    case True
    then show ?thesis
      by (simp add: RecommenderPipeline_init_def find_embedding_columns_def)
  next
    case False
    then have "\<exists>c \<in> set (columns df). startswith c ''t_'' \<or> startswith c ''e_''"
      by (auto simp: filter_empty_conv)
    with assms have "''user_id'' \<notin> set (columns df)" by blast
    then show ?thesis
      using False
      by (simp add: RecommenderPipeline_init_def find_embedding_columns_def
            CandidateGenerator_init_def Let_def)
  qed
  have "\<exists>e. RecommenderPipeline_init np config_file (Inr df) = Inl e" for config_file
  proof (cases config_file)
    case (Inl e)
    then show ?thesis by (simp add: RecommenderPipeline_init_def)
  next
    case (Inr cfg')
    then show ?thesis using a by simp
  qed
  then show ?thesis using a by blast
qed

theorem init_fails_witness:
  "RecommenderPipeline_init example_libs (Inr sample_config) (Inr no_user_id_frame) = Inl ValueError
   \<and> RecommenderPipeline_init example_libs (Inr sample_config) (Inr no_embedding_frame) = Inl ValueError"
proof -
  have 1: "''user_id'' \<notin> set (columns no_user_id_frame)"
    by (simp add: no_user_id_frame_def)
  have 2: "\<not> (\<exists>c \<in> set (columns no_embedding_frame). startswith c ''t_'' \<or> startswith c ''e_'')"
    by (simp add: no_embedding_frame_def)
  show ?thesis
    using init_fails [of no_user_id_frame example_libs sample_config]
          init_fails [of no_embedding_frame example_libs sample_config] 1 2
    by blast
qed

section \<open>Hard filters and the rows of the feature engine\<close>

lemma make_row_fields:
  "make_row rf mix uid u uf cid sim c fl = Inr row \<Longrightarrow>
     user_id row = uid \<and> match_id row = cid \<and> base_sim row = sim
     \<and> filter_gender row = gender_flag fl \<and> filter_age row = age_flag fl
     \<and> filter_city row = city_flag fl"
  by (auto simp: make_row_def Let_def split: sum.splits prod.splits)


lemma candidate_rows_complete:
  "candidate_rows rf by_id mix filters uid u uf cands = Inr rows \<Longrightarrow>
   (cid, sim) \<in> set cands \<Longrightarrow> by_id cid = Some c \<Longrightarrow>
     \<exists>fl. hard_filter_flags u c filters = Inr fl
        \<and> (passes fl \<longrightarrow> (\<exists>r \<in> set rows. user_id r = uid \<and> match_id r = cid \<and> base_sim r = sim))"
proof (induction cands arbitrary: rows)
  case Nil
  then show ?case by simp
next
  case (Cons p cands)
  obtain cid' sim' where p: "p = (cid', sim')" by (cases p) auto
  show ?case
  proof (cases "by_id cid'")
    case None
    with Cons p show ?thesis by (auto split: sum.splits)
  next
    case (Some c')
    show ?thesis
    proof (cases "hard_filter_flags u c' filters")
      case (Inl e)
      with Cons.prems Some p show ?thesis by simp
    next
      case (Inr fl')
      show ?thesis
      proof (cases "passes fl'")
        case False
        with Cons Some Inr p show ?thesis by auto
      next
        case True
        from Cons.prems(1) Some Inr True p obtain row rest where
          row: "make_row rf mix uid u uf cid' sim' c' fl' = Inr row"
          and rest: "candidate_rows rf by_id mix filters uid u uf cands = Inr rest"
          and rows: "rows = row # rest"
          by (auto split: sum.splits)
        from Cons.prems(2) p consider "cid = cid'" "sim = sim'" | "(cid, sim) \<in> set cands" by auto
        then show ?thesis
        proof cases
          case 1
          with make_row_fields [OF row] Some Inr Cons.prems(3) rows show ?thesis by auto
        next
          case 2
          from Cons.IH [OF rest 2 Cons.prems(3)] rows show ?thesis by auto
        qed
      qed
    qed
  qed
qed


lemma user_rows_complete:
  "user_rows rf by_id mix filters candidates = Inr feats \<Longrightarrow>
   (uid, cands) \<in> set candidates \<Longrightarrow> by_id uid = Some u \<Longrightarrow>
   (cid, sim) \<in> set cands \<Longrightarrow> by_id cid = Some c \<Longrightarrow>
     \<exists>fl. hard_filter_flags u c filters = Inr fl
        \<and> (passes fl \<longrightarrow> (\<exists>r \<in> set feats. user_id r = uid \<and> match_id r = cid \<and> base_sim r = sim))"
proof (induction candidates arbitrary: feats)
  case Nil
  then show ?case by simp
next
  case (Cons p candidates)
  obtain uid' cands' where p: "p = (uid', cands')" by (cases p) auto
  show ?case
  proof (cases "by_id uid'")
    case None
    with Cons.prems p have rest: "user_rows rf by_id mix filters candidates = Inr feats"
      and el: "(uid, cands) \<in> set candidates" by auto
    from Cons.IH [OF rest el Cons.prems(3,4,5)] show ?thesis .
  next
    case (Some u')
    from Cons.prems(1) Some p obtain uf rows rest where
      rows: "candidate_rows rf by_id mix filters uid' u' uf cands' = Inr rows"
      and rest: "user_rows rf by_id mix filters candidates = Inr rest"
      and feats: "feats = rows @ rest"
      by (auto split: sum.splits)
    from Cons.prems(2) p consider "uid = uid'" "cands = cands'" | "(uid, cands) \<in> set candidates"
      by auto
    then show ?thesis
    proof cases
      case 1
      with Some Cons.prems(3) have "u' = u" by simp
      with candidate_rows_complete [OF rows] 1 Cons.prems(4,5) feats show ?thesis by fastforce
    next
      case 2
      from Cons.IH [OF rest 2 Cons.prems(3,4,5)] feats show ?thesis by auto
    qed
  qed
qed

lemma all_filters_off:
  assumes "\<not> filter_on filters ''gender''" "\<not> filter_on filters ''age''" "\<not> filter_on filters ''city''"
  shows "hard_filter_flags u c filters = Inr \<lparr>gender_flag = True, age_flag = True, city_flag = True\<rparr>"
  using assms
  by (simp add: hard_filter_flags_def gender_check_def age_check_def city_check_def)





text \<open>The other direction does not hold of the code as it is. A cell that pandas read
  from an empty field is \<open>nan\<close>, which is true: \<open>int(c.get("age", 0) or 0)\<close> (line 142)
  raises \<open>ValueError\<close> on it, outside any \<open>try\<close>, and the whole assembly is lost, with
  the rows of the pairs that passed. With no filter enabled, the pair of users 1 and 3
  is not retained because user 2 has no age.\<close>

lemma empty_age_aborts:
  "build_features plain_repr [seeker, no_age, man] [(1, [(2, 0.9), (3, 0.8)])] Map.empty Map.empty
     = Inl ValueError"
  by code_simp

lemma without_empty_age_retained:
  "build_features plain_repr [seeker, woman, man] [(1, [(2, 0.9), (3, 0.8)])] Map.empty Map.empty
     = Inr [plain_row 1 2 0.9, plain_row 1 3 0.8]"
  by code_simp


section \<open>The recall index\<close>

lemma id_to_idx_Some:
  assumes "id_to_idx cg uid = Some idx"
  shows "idx < length (user_ids cg) \<and> user_ids cg ! idx = uid"
proof -
  from assms have "(uid, idx) \<in> set (zip (user_ids cg) [0..<length (user_ids cg)])"
    by (auto simp: id_to_idx_def dest: map_of_SomeD)
  then show ?thesis by (auto simp: in_set_zip)
qed

lemma id_to_idx_None:
  assumes "uid \<notin> set (user_ids cg)"
  shows "id_to_idx cg uid = None"
proof -
  have "map fst (zip (user_ids cg) [0..<length (user_ids cg)]) = user_ids cg" by simp
  then have "fst ` set (zip (user_ids cg) [0..<length (user_ids cg)]) = set (user_ids cg)"
    by (metis set_map)
  with assms show ?thesis by (simp add: id_to_idx_def map_of_eq_None_iff)
qed

lemma id_to_idx_known:
  assumes "uid \<in> set (user_ids cg)"
  shows "\<exists>idx. id_to_idx cg uid = Some idx"
proof -
  have "map fst (zip (user_ids cg) [0..<length (user_ids cg)]) = user_ids cg" by simp
  then have "fst ` set (zip (user_ids cg) [0..<length (user_ids cg)]) = set (user_ids cg)"
    by (metis set_map)
  with assms have "id_to_idx cg uid \<noteq> None" by (simp add: id_to_idx_def map_of_eq_None_iff)
  then show ?thesis by auto
qed

lemma stable_argsort_props:
  "length (stable_argsort xs) = length xs"
  "set (stable_argsort xs) = {..<length xs}"
  "sorted (map (\<lambda>i. xs ! i) (stable_argsort xs))"
  by (auto simp: stable_argsort_def sorted_sort_key)

lemma example_argsort_ok: "argsort_ok example_libs"
  by (simp add: argsort_ok_def example_libs_def stable_argsort_props Let_def)

lemma example_argpartition_ok: "argpartition_ok example_libs"
proof -
  have "xs ! (stable_argsort xs ! i) \<le> xs ! (stable_argsort xs ! j)"
    if "i \<le> j" "j < length xs" for xs :: "real option list" and i j
  proof -
    have "map (\<lambda>i. xs ! i) (stable_argsort xs) ! i \<le> map (\<lambda>i. xs ! i) (stable_argsort xs) ! j"
      using that stable_argsort_props(1,3) [of xs]
      by (intro sorted_nth_mono) simp_all
    then show ?thesis using that stable_argsort_props(1) [of xs] by simp
  qed
  then show ?thesis
    by (simp add: argpartition_ok_def example_libs_def stable_argsort_props Let_def)
qed

text \<open>The row of similarities with the user's own entry set to \<open>-inf\<close>.\<close>

lemma masked_row:
  assumes "idx < length row"
  shows "length ((map Some row)[idx := None]) = length row"
    and "\<And>j. j < length row \<Longrightarrow>
           ((map Some row)[idx := None]) ! j = (if j = idx then None else Some (row ! j))"
  using assms by (simp_all add: nth_list_update)

lemma permutation_distinct:
  assumes "length p = n" "set p = {..<n}"
  shows "distinct p"
  using assms by (metis card_distinct card_lessThan)

lemma partition_top_excludes:
  fixes sims :: "real option list"
  assumes len: "length p = length sims" and perm: "set p = {..<length sims}"
      and lo: "\<forall>i<kth. sims ! (p ! i) \<le> sims ! (p ! kth)"
      and hi: "\<forall>i. kth < i \<and> i < length sims \<longrightarrow> sims ! (p ! kth) \<le> sims ! (p ! i)"
      and kth: "0 < kth" "kth < length sims"
      and idx: "idx < length sims" "sims ! idx = None"
      and only: "\<forall>j<length sims. j \<noteq> idx \<longrightarrow> sims ! j \<noteq> None"
  shows "idx \<notin> set (drop kth p)"
proof
  assume "idx \<in> set (drop kth p)"
  then obtain i where i: "i < length p - kth" "drop kth p ! i = idx"
    by (auto simp: in_set_conv_nth)
  then have pi: "p ! (kth + i) = idx" "kth + i < length sims"
    using len kth by simp_all
  have "sims ! (p ! kth) \<le> None"
  proof (cases "i = 0")
    case True
    with pi idx show ?thesis by simp
  next
    case False
    with hi pi idx show ?thesis by (metis less_add_same_cancel1 neq0_conv)
  qed
  then have k0: "sims ! (p ! kth) = None" by (simp add: less_eq_option_None_is_None)
  with lo kth have "sims ! (p ! 0) \<le> None" by metis
  then have z0: "sims ! (p ! 0) = None" by (simp add: less_eq_option_None_is_None)
  have in_range: "p ! j < length sims" if "j < length sims" for j
    using that len perm by (metis lessThan_iff nth_mem)
  from only k0 in_range [OF kth(2)] have "p ! kth = idx" by blast
  moreover from only z0 in_range [of 0] kth have "p ! 0 = idx" by force
  moreover have "distinct p" using permutation_distinct [OF len perm] .
  ultimately show False
    using kth len by (metis nth_eq_iff_index_eq less_trans neq0_conv)
qed

lemma topk_unknown: "id_to_idx cg uid = None \<Longrightarrow> topk_for_user np cg uid k = []"
  by (simp add: topk_for_user_def)

lemma argpartition_okD:
  assumes "argpartition_ok np" "kth < length xs"
  shows "length (np_argpartition np xs kth) = length xs"
    and "set (np_argpartition np xs kth) = {..<length xs}"
    and "\<And>i. i < kth \<Longrightarrow>
           xs ! (np_argpartition np xs kth ! i) \<le> xs ! (np_argpartition np xs kth ! kth)"
    and "\<And>i. kth < i \<Longrightarrow> i < length xs \<Longrightarrow>
           xs ! (np_argpartition np xs kth ! kth) \<le> xs ! (np_argpartition np xs kth ! i)"
  using assms unfolding argpartition_ok_def Let_def by blast+

lemma argsort_okD:
  assumes "argsort_ok np"
  shows "length (np_argsort np xs) = length xs"
    and "set (np_argsort np xs) = {..<length xs}"
    and "sorted (map (\<lambda>i. xs ! i) (np_argsort np xs))"
  using assms unfolding argsort_ok_def Let_def by blast+

lemma top_positions_props:
  fixes sims :: "real option list"
  assumes ap: "argpartition_ok np" and sr: "argsort_ok np"
      and ke: "0 < ke" "ke < length sims"
      and idx: "idx < length sims" "sims ! idx = None"
      and only: "\<forall>j<length sims. j \<noteq> idx \<longrightarrow> sims ! j \<noteq> None"
  shows "length (top_positions np sims ke) = ke"
    and "distinct (top_positions np sims ke)"
    and "set (top_positions np sims ke) \<subseteq> {..<length sims} - {idx}"
    and "sorted (rev (map (\<lambda>j. sims ! j) (top_positions np sims ke)))"
proof -
  define kth where "kth = length sims - ke"
  define p where "p = np_argpartition np sims kth"
  define top_idx where "top_idx = drop kth p"
  define vals where "vals = map (\<lambda>j. sims ! j) top_idx"
  define q where "q = np_argsort np vals"
  have tp: "top_positions np sims ke = map (\<lambda>i. top_idx ! i) (rev q)"
    unfolding top_positions_def Let_def q_def vals_def top_idx_def p_def kth_def by (rule refl)
  have kthb: "0 < kth" "kth < length sims" "length sims - kth = ke"
    using ke unfolding kth_def by arith+
  have pp: "length p = length sims" "set p = {..<length sims}"
      "\<forall>i<kth. sims ! (p ! i) \<le> sims ! (p ! kth)"
      "\<forall>i. kth < i \<and> i < length sims \<longrightarrow> sims ! (p ! kth) \<le> sims ! (p ! i)"
    using argpartition_okD [OF ap kthb(2)] unfolding p_def by simp_all
  have dp: "distinct p" using permutation_distinct [OF pp(1,2)] .
  have tlen: "length top_idx = ke" using pp(1) kthb by (simp add: top_idx_def)
  have dt: "distinct top_idx" using dp by (simp add: top_idx_def)
  have vlen: "length vals = ke" using tlen by (simp add: vals_def)
  have qq: "length q = ke" "set q = {..<ke}" "sorted (map (\<lambda>i. vals ! i) q)"
    using argsort_okD [OF sr, of vals] vlen unfolding q_def by simp_all
  have dq: "distinct q" using permutation_distinct [OF qq(1,2)] .
  show "length (top_positions np sims ke) = ke" by (simp add: tp qq(1))
  have "inj_on (\<lambda>i. top_idx ! i) (set (rev q))"
    using qq(2) tlen dt by (auto simp: inj_on_def nth_eq_iff_index_eq)
  then show "distinct (top_positions np sims ke)"
    unfolding tp using dq by (simp add: distinct_map)
  have notin: "idx \<notin> set top_idx"
    unfolding top_idx_def
    using pp kthb idx only by (intro partition_top_excludes [where sims = sims]) simp_all
  have sub: "set (top_positions np sims ke) \<subseteq> set top_idx"
  proof
    fix j assume "j \<in> set (top_positions np sims ke)"
    then obtain i where "i \<in> set q" "j = top_idx ! i" by (auto simp: tp)
    with qq(2) tlen show "j \<in> set top_idx" by simp
  qed
  have rng: "set top_idx \<subseteq> {..<length sims}"
    using pp(2) set_drop_subset [of kth p] by (simp add: top_idx_def)
  from sub rng notin show "set (top_positions np sims ke) \<subseteq> {..<length sims} - {idx}" by auto
  have "map (\<lambda>j. sims ! j) (top_positions np sims ke) = map (\<lambda>i. sims ! (top_idx ! i)) (rev q)"
    by (simp add: tp comp_def)
  also have "\<dots> = map (\<lambda>i. vals ! i) (rev q)"
    using qq(2) tlen by (intro map_cong) (auto simp: vals_def)
  finally have "rev (map (\<lambda>j. sims ! j) (top_positions np sims ke)) = map (\<lambda>i. vals ! i) q"
    by (simp add: rev_map)
  with qq(3) show "sorted (rev (map (\<lambda>j. sims ! j) (top_positions np sims ke)))" by simp
qed

lemma topk_for_user_positions:
  assumes "id_to_idx cg uid = Some idx"
      and "0 < min k (int (length (sim_matrix cg ! idx)) - 1)"
  shows "topk_for_user np cg uid k =
           map (\<lambda>j. (user_ids cg ! j, ((map Some (sim_matrix cg ! idx))[idx := None]) ! j))
             (top_positions np ((map Some (sim_matrix cg ! idx))[idx := None])
                (nat (min k (int (length (sim_matrix cg ! idx)) - 1))))"
proof -
  have "\<not> min k (int (length (sim_matrix cg ! idx)) - 1) \<le> 0" using assms(2) by linarith
  then have nle: "(min k (int (length (sim_matrix cg ! idx)) - 1) \<le> 0) = False"
    by (rule eq_False [THEN iffD2])
  have l: "length ((map Some (sim_matrix cg ! idx))[idx := None]) = length (sim_matrix cg ! idx)"
    by simp
  show ?thesis
    unfolding topk_for_user_def top_positions_def Let_def assms(1) option.case l nle if_False
    by (rule refl)
qed

lemma topk_props:
  assumes ap: "argpartition_ok np" and sr: "argsort_ok np" and wf: "wf_generator cg"
      and idx: "id_to_idx cg uid = Some idx"
  shows "int (length (topk_for_user np cg uid k)) = max 0 (min k (int (length (user_ids cg)) - 1))"
    and "sorted (rev (map snd (topk_for_user np cg uid k)))"
    and "distinct (user_ids cg) \<Longrightarrow> uid \<notin> fst ` set (topk_for_user np cg uid k)"
proof -
  let ?n = "length (user_ids cg)"
  let ?row = "sim_matrix cg ! idx"
  let ?sims = "(map Some ?row)[idx := None]"
  let ?ke = "min k (int ?n - 1)"
  from id_to_idx_Some [OF idx] have ix: "idx < ?n" "user_ids cg ! idx = uid" by simp_all
  from wf ix(1) have rowlen: "length ?row = ?n"
    by (simp add: wf_generator_def)
  then have slen: "length ?sims = ?n" by simp
  have sval: "?sims ! j = (if j = idx then None else Some (?row ! j))" if "j < ?n" for j
    using that rowlen ix(1) by (simp add: nth_list_update)
  consider "?ke \<le> 0" | "0 < ?ke" by linarith
  then have "int (length (topk_for_user np cg uid k)) = max 0 (min k (int ?n - 1))
     \<and> sorted (rev (map snd (topk_for_user np cg uid k)))
     \<and> (distinct (user_ids cg) \<longrightarrow> uid \<notin> fst ` set (topk_for_user np cg uid k))"
  proof cases
    case 1
    then have "topk_for_user np cg uid k = []"
      using idx slen by (simp add: topk_for_user_def Let_def)
    with 1 show ?thesis by simp
  next
    case 2
    define ts where "ts = top_positions np ?sims (nat ?ke)"
    have res: "topk_for_user np cg uid k = map (\<lambda>j. (user_ids cg ! j, ?sims ! j)) ts"
      using topk_for_user_positions [OF idx, of k np] 2 rowlen by (simp add: ts_def)
    have ke: "0 < nat ?ke" "nat ?ke < length ?sims" using 2 slen by arith+
    have none: "?sims ! idx = None" using sval [OF ix(1)] by simp
    have only: "\<forall>j<length ?sims. j \<noteq> idx \<longrightarrow> ?sims ! j \<noteq> None"
      using sval slen by simp
    have ixs: "idx < length ?sims" using ix(1) slen by simp
    note tp = top_positions_props [OF ap sr ke ixs none only, folded ts_def]
    have "length (topk_for_user np cg uid k) = nat ?ke"
      using tp(1) by (simp add: res)
    then have len: "int (length (topk_for_user np cg uid k)) = ?ke"
      using 2 by linarith
    have srt: "sorted (rev (map snd (topk_for_user np cg uid k)))"
      using tp(4) by (simp add: res comp_def)
    have excl: "uid \<notin> fst ` set (topk_for_user np cg uid k)" if d: "distinct (user_ids cg)"
    proof
      assume "uid \<in> fst ` set (topk_for_user np cg uid k)"
      then obtain j where j: "j \<in> set ts" "user_ids cg ! j = uid"
        by (auto simp: res)
      with tp(3) slen have jn: "j < ?n" and ji: "j \<noteq> idx" by auto
      from nth_eq_iff_index_eq [OF d jn ix(1)] ix(2) j(2) ji show False by simp
    qed
    from len 2 srt excl show ?thesis by simp
  qed
  then show "int (length (topk_for_user np cg uid k)) = max 0 (min k (int ?n - 1))"
    and "sorted (rev (map snd (topk_for_user np cg uid k)))"
    and "distinct (user_ids cg) \<Longrightarrow> uid \<notin> fst ` set (topk_for_user np cg uid k)"
    by simp_all
qed

lemma tie_generator_wf: "wf_generator tie_generator" "wf_generator tie_generator_swapped"
  by (simp_all add: wf_generator_def tie_generator_def tie_generator_swapped_def)

lemma tie_generator_first:
  "id_to_idx tie_generator 0 = Some 0" "id_to_idx tie_generator_swapped 0 = Some 0"
  by (simp_all add: id_to_idx_def tie_generator_def tie_generator_swapped_def upt_rec)

text \<open>
  C3 (as amended). For every known user id and every \<open>k\<close>, \<open>topk_for_user\<close> returns
  \<open>min(k, N - 1)\<close> entries (none when that is not positive), \<open>N\<close> being the size of the
  population, so at most \<open>min(k, N - 1)\<close> for \<open>k \<ge> 0\<close>, in order of descending similarity.
  The order of candidates of equal similarity is the one NumPy's partition and sort
  leave; the identifiers play no part in it.
\<close>

theorem topk_length_sorted:
  assumes "argpartition_ok np" and "argsort_ok np" and "wf_generator cg"
      and "uid \<in> set (user_ids cg)"
  shows "int (length (topk_for_user np cg uid k)) = max 0 (min k (int (length (user_ids cg)) - 1))
       \<and> (0 \<le> k \<longrightarrow> int (length (topk_for_user np cg uid k)) \<le> min k (int (length (user_ids cg)) - 1))
       \<and> sorted (rev (map snd (topk_for_user np cg uid k)))"
proof -
  from id_to_idx_known [OF assms(4)] obtain idx where idx: "id_to_idx cg uid = Some idx" by blast
  from assms(4) have "0 < length (user_ids cg)" by (cases "user_ids cg") auto
  then show ?thesis
    using topk_props(1,2) [OF assms(1,2,3) idx, of k] by auto
qed

theorem topk_length_sorted_witness:
  "int (length (topk_for_user example_libs tie_generator 0 2)) = 2
   \<and> sorted (rev (map snd (topk_for_user example_libs tie_generator 0 2)))
   \<and> int (length (topk_for_user example_libs tie_generator 1 5)) = 2"
proof -
  have m: "0 \<in> set (user_ids tie_generator)" "1 \<in> set (user_ids tie_generator)"
    by (simp_all add: tie_generator_def)
  have n: "length (user_ids tie_generator) = 3" by (simp add: tie_generator_def)
  show ?thesis
    using topk_length_sorted [OF example_argpartition_ok example_argsort_ok tie_generator_wf(1) m(1), of 2]
          topk_length_sorted [OF example_argpartition_ok example_argsort_ok tie_generator_wf(1) m(2), of 5]
    by (simp add: n)
qed

text \<open>
  C7. Whatever \<open>k\<close>, the queried user is not among the candidates \<open>topk_for_user\<close>
  returns (the user ids being unique), and the result is empty when the user id is
  unknown or the population has fewer than two users.
\<close>

theorem topk_excludes_self:
  assumes "argpartition_ok np" and "argsort_ok np" and "wf_generator cg"
      and "distinct (user_ids cg)"
  shows "uid \<notin> fst ` set (topk_for_user np cg uid k)
       \<and> (uid \<notin> set (user_ids cg) \<or> length (user_ids cg) < 2 \<longrightarrow> topk_for_user np cg uid k = [])"
proof (cases "id_to_idx cg uid")
  case None
  then show ?thesis by (simp add: topk_unknown)
next
  case (Some idx)
  from id_to_idx_Some [OF Some] have known: "uid \<in> set (user_ids cg)" by auto
  have "topk_for_user np cg uid k = []" if "length (user_ids cg) < 2"
  proof -
    from topk_props(1) [OF assms(1,2,3) Some, of k] that
    have "int (length (topk_for_user np cg uid k)) = 0" by auto
    then show ?thesis by simp
  qed
  with known topk_props(3) [OF assms(1,2,3) Some assms(4), of k] show ?thesis by blast
qed

theorem topk_excludes_self_witness:
  "0 \<notin> fst ` set (topk_for_user example_libs tie_generator 0 2)
   \<and> topk_for_user example_libs tie_generator 7 2 = []"
proof -
  have d: "distinct (user_ids tie_generator)" by (simp add: tie_generator_def)
  have u: "7 \<notin> set (user_ids tie_generator)" by (simp add: tie_generator_def)
  show ?thesis
    using topk_excludes_self [OF example_argpartition_ok example_argsort_ok tie_generator_wf(1) d, of 0 2]
          topk_excludes_self [OF example_argpartition_ok example_argsort_ok tie_generator_wf(1) d, of 7 2]
          u
    by blast
qed

text \<open>Ties. With the stable sort for NumPy, the two candidates of equal similarity come
  out with the larger id first; and whatever NumPy does with equal elements, it does it
  on positions, so of two datasets that differ only in which of the two tied users has
  which id, one gets the larger id first.\<close>

lemma two_positions:
  assumes "length ts = 2" "distinct ts" "set ts \<subseteq> {..<3} - {0::nat}"
  shows "ts = [1, 2] \<or> ts = [2, 1]"
proof -
  from assms(1) obtain a b where ts: "ts = [a, b]"
    by (metis One_nat_def Suc_1 length_0_conv length_Suc_conv)
  with assms(2,3) have "a \<noteq> b" "a \<in> {1, 2}" "b \<in> {1, 2}" by auto
  with ts show ?thesis by auto
qed

lemma tie_order_any_numpy:
  assumes ap: "argpartition_ok np" and sr: "argsort_ok np"
  shows "\<not> (ties_by_ascending_id (topk_for_user np tie_generator 0 2)
            \<and> ties_by_ascending_id (topk_for_user np tie_generator_swapped 0 2))"
proof -
  let ?sims = "[None, Some 0.5, Some (0.5::real)]"
  define ts where "ts = top_positions np ?sims 2"
  have a: "topk_for_user np tie_generator 0 2 = map (\<lambda>j. ([0, 1, 2] ! j, ?sims ! j)) ts"
    using topk_for_user_positions [OF tie_generator_first(1), of 2 np]
    by (simp add: tie_generator_def ts_def)
  have b: "topk_for_user np tie_generator_swapped 0 2 = map (\<lambda>j. ([0, 2, 1] ! j, ?sims ! j)) ts"
    using topk_for_user_positions [OF tie_generator_first(2), of 2 np]
    by (simp add: tie_generator_swapped_def ts_def)
  have only: "\<forall>j<length ?sims. j \<noteq> 0 \<longrightarrow> ?sims ! j \<noteq> None"
  proof (intro allI impI)
    fix j assume "j < length ?sims" "j \<noteq> 0"
    then have "j = 1 \<or> j = 2" by auto
    then show "?sims ! j \<noteq> None" by (elim disjE) (simp_all add: nth_Cons')
  qed
  have side: "0 < (2::nat)" "2 < length ?sims" "0 < length ?sims" "?sims ! 0 = None"
    by simp_all
  have l3: "length ?sims = 3" by simp
  have "length ts = 2" "distinct ts" "set ts \<subseteq> {..<3} - {0}"
    using top_positions_props(1,2,3) [OF ap sr side only]
    unfolding l3 ts_def by blast+
  then consider "ts = [1, 2]" | "ts = [2, 1]" using two_positions by blast
  then show ?thesis
    by cases (simp_all add: a b ties_by_ascending_id_def)
qed

theorem ties_not_by_ascending_id:
  "topk_for_user example_libs tie_generator 0 2 = [(2, Some 0.5), (1, Some 0.5)]
   \<and> \<not> ties_by_ascending_id (topk_for_user example_libs tie_generator 0 2)
   \<and> \<not> (\<exists>np. argpartition_ok np \<and> argsort_ok np
             \<and> ties_by_ascending_id (topk_for_user np tie_generator 0 2)
             \<and> ties_by_ascending_id (topk_for_user np tie_generator_swapped 0 2))"
proof -
  have e: "topk_for_user example_libs tie_generator 0 2 = [(2, Some 0.5), (1, Some 0.5)]"
    by code_simp
  then have "\<not> ties_by_ascending_id (topk_for_user example_libs tie_generator 0 2)"
    by (simp add: ties_by_ascending_id_def)
  with e tie_order_any_numpy show ?thesis by blast
qed

end
